theory Spec2Isabelle
  imports Complex_Main "HOL-Library.AList" "HOL-Library.Log_Nat"
begin

section \<open>Shared protocol types (src/types.ts)\<close>

text \<open>
  Identities and room names are strings.  A cursor position is the object \<open>{x, y}\<close>; the
  relay only carries the two numbers and never computes with them, so they are integers
  here.  \<open>UserMetadata\<close> is an open object; it is a list of key/value pairs.
\<close>

type_synonym position = "int \<times> int"
type_synonym UserMetadata = "(string \<times> string) list"

text \<open>
  Interface \<open>User\<close>.  Field \<open>cursor\<close> is \<open>{x, y} | null\<close>, \<open>metadata\<close> is optional.
  The fields \<open>id\<close>, \<open>roomId\<close> and \<open>metadata\<close> carry a prefix because other records
  of this file have fields of the same name.
\<close>

record User =
  user_id :: string
  user_roomId :: string
  cursor :: "position option"
  typing :: bool
  user_metadata :: "UserMetadata option"

text \<open>
  \<open>Partial<User>\<close>, the argument of \<open>updateUser\<close>: every field may be absent.  A field
  that is itself nullable or optional is doubly optional here (absent from the update, or
  present with the value null/undefined).
\<close>

record PartialUser =
  upd_id :: "string option"
  upd_roomId :: "string option"
  upd_cursor :: "position option option"
  upd_typing :: "bool option"
  upd_metadata :: "UserMetadata option option"

text \<open>\<open>Object.assign(user, updates)\<close>: every field present in the update overwrites.\<close>

definition assign :: "User \<Rightarrow> PartialUser \<Rightarrow> User" where
  "assign user updates =
     \<lparr> user_id = (case upd_id updates of None \<Rightarrow> user_id user | Some v \<Rightarrow> v),
       user_roomId = (case upd_roomId updates of None \<Rightarrow> user_roomId user | Some v \<Rightarrow> v),
       cursor = (case upd_cursor updates of None \<Rightarrow> cursor user | Some v \<Rightarrow> v),
       typing = (case upd_typing updates of None \<Rightarrow> typing user | Some v \<Rightarrow> v),
       user_metadata =
         (case upd_metadata updates of None \<Rightarrow> user_metadata user | Some v \<Rightarrow> v) \<rparr>"

definition noUpdate :: PartialUser where
  "noUpdate = \<lparr> upd_id = None, upd_roomId = None, upd_cursor = None, upd_typing = None,
                upd_metadata = None \<rparr>"

datatype ServerMessageType =
  SPresence | SUpdate | SError | SCustom | SPing | SPong | SConnected | SDisconnected

text \<open>
  Interface \<open>ServerMessage\<close>, one record with optional fields as in the source, together
  with the internal field \<open>_excludeUserId\<close> that \<open>broadcastToRoom\<close> adds and the
  fan-out callback removes.  The payload \<open>data\<close> (\<open>unknown\<close> in the source) is JSON text.
  The optional fields carry the prefix \<open>s_\<close>, those of \<open>ClientMessage\<close> the prefix \<open>m_\<close>.
\<close>

record ServerMessage =
  stype :: ServerMessageType
  s_users :: "User list option"
  s_user :: "User option"
  s_error :: "string option"
  s_event :: "string option"
  s_data :: "string option"
  excludeUserId :: "string option"

definition message :: "ServerMessageType \<Rightarrow> ServerMessage" where
  "message t = \<lparr> stype = t, s_users = None, s_user = None, s_error = None,
                 s_event = None, s_data = None, excludeUserId = None \<rparr>"

text \<open>
  The inbound message is whatever \<open>JSON.parse\<close> returns, so its \<open>type\<close> can be any
  string: \<open>MOther\<close> stands for every value outside \<open>MessageType\<close>.
\<close>

datatype MessageType =
  MCursor | MTyping | MJoin | MLeave | MPresence | MUpdate | MCustom | MPing | MPong
  | MOther string

text \<open>
  Interface \<open>ClientMessage\<close>.  \<open>isTyping\<close> is \<open>Some b\<close> exactly when
  \<open>typeof data.isTyping === 'boolean'\<close>.
\<close>

record ClientMessage =
  mtype :: MessageType
  m_roomId :: "string option"
  m_position :: "position option"
  isTyping :: "bool option"
  m_token :: "string option"
  m_metadata :: "UserMetadata option"
  m_event :: "string option"
  m_data :: "string option"

definition clientMessage :: "MessageType \<Rightarrow> ClientMessage" where
  "clientMessage t = \<lparr> mtype = t, m_roomId = None, m_position = None, isTyping = None,
                       m_token = None, m_metadata = None, m_event = None, m_data = None \<rparr>"

text \<open>JavaScript truthiness of an optional string: absent and the empty string are falsy.\<close>

definition truthy :: "string option \<Rightarrow> bool" where
  "truthy s = (case s of None \<Rightarrow> False | Some v \<Rightarrow> v \<noteq> [])"

text \<open>\<open>s || d\<close> on an optional string.\<close>

definition orElse :: "string option \<Rightarrow> string \<Rightarrow> string" where
  "orElse s d = (case s of None \<Rightarrow> d | Some v \<Rightarrow> if v = [] then d else v)"


section \<open>Callbacks and exceptions\<close>

text \<open>
  A call either returns or throws; in both cases it may have changed the world \<open>'w\<close> it
  runs in.  \<open>forEach\<close> is \<open>Set.prototype.forEach\<close> (and \<open>Array.prototype.forEach\<close>): it
  calls the function on the elements in insertion order and has no handler of its own, so
  the first exception leaves the loop.
\<close>

datatype 'w outcome = Returned 'w | Thrown string 'w

fun stateOf :: "'w outcome \<Rightarrow> 'w" where
  "stateOf (Returned w) = w"
| "stateOf (Thrown e w) = w"

fun forEach :: "('a \<Rightarrow> 'w \<Rightarrow> 'w outcome) \<Rightarrow> 'a list \<Rightarrow> 'w \<Rightarrow> 'w outcome" where
  "forEach f [] w = Returned w"
| "forEach f (x # xs) w =
     (case f x w of
        Returned w' \<Rightarrow> forEach f xs w'
      | Thrown e w' \<Rightarrow> Thrown e w')"


section \<open>The in-process Backend Store (class MemoryAdapter)\<close>

text \<open>
  Both fields are JavaScript \<open>Map\<close>s, which keep insertion order; a room is a \<open>Map\<close> from
  userId to \<open>User\<close>, a subscriber set is a \<open>Set\<close> of callbacks.  They are association
  lists and lists: \<open>map_of\<close> is \<open>get\<close>, \<open>AList.update\<close> is \<open>set\<close> (in place, or appended
  for a new key), \<open>AList.delete\<close> is \<open>delete\<close>.  The adapter is generic in the type
  \<open>'cb\<close> of callback handles.  The methods are \<open>async\<close> but contain no \<open>await\<close>: each
  runs to its end without interleaving.
\<close>

record 'cb MemoryAdapter =
  rooms :: "(string \<times> (string \<times> User) list) list"
  subscribers :: "(string \<times> 'cb list) list"

definition emptyAdapter :: "'cb MemoryAdapter" where
  "emptyAdapter = \<lparr> rooms = [], subscribers = [] \<rparr>"

definition newUser :: "string \<Rightarrow> string \<Rightarrow> UserMetadata option \<Rightarrow> User" where
  "newUser roomId userId metadata =
     \<lparr> user_id = userId, user_roomId = roomId, cursor = None, typing = False,
       user_metadata = metadata \<rparr>"

definition joinRoom ::
  "string \<Rightarrow> string \<Rightarrow> UserMetadata option \<Rightarrow> 'cb MemoryAdapter \<Rightarrow> 'cb MemoryAdapter" where
  "joinRoom roomId userId metadata A =
     (let A1 = (if map_of (rooms A) roomId = None
                then A\<lparr>rooms := AList.update roomId [] (rooms A)\<rparr> else A)
      in case map_of (rooms A1) roomId of
           None \<Rightarrow> A1
         | Some room \<Rightarrow>
             if map_of room userId = None
             then A1\<lparr>rooms := AList.update roomId
                      (AList.update userId (newUser roomId userId metadata) room) (rooms A1)\<rparr>
             else A1)"

definition leaveRoom :: "string \<Rightarrow> string \<Rightarrow> 'cb MemoryAdapter \<Rightarrow> 'cb MemoryAdapter" where
  "leaveRoom roomId userId A =
     (case map_of (rooms A) roomId of
        None \<Rightarrow> A
      | Some room \<Rightarrow>
          (let room' = AList.delete userId room
           in if room' = [] then A\<lparr>rooms := AList.delete roomId (rooms A)\<rparr>
              else A\<lparr>rooms := AList.update roomId room' (rooms A)\<rparr>))"

definition updateUser ::
  "string \<Rightarrow> string \<Rightarrow> PartialUser \<Rightarrow> 'cb MemoryAdapter \<Rightarrow> 'cb MemoryAdapter" where
  "updateUser roomId userId updates A =
     (case map_of (rooms A) roomId of
        None \<Rightarrow> A
      | Some room \<Rightarrow>
          (case map_of room userId of
             None \<Rightarrow> A
           | Some user \<Rightarrow>
               A\<lparr>rooms := AList.update roomId
                    (AList.update userId (assign user updates) room) (rooms A)\<rparr>))"

definition getUsers :: "string \<Rightarrow> 'cb MemoryAdapter \<Rightarrow> User list" where
  "getUsers roomId A =
     (case map_of (rooms A) roomId of None \<Rightarrow> [] | Some room \<Rightarrow> map snd room)"

text \<open>
  \<open>broadcast\<close> calls every callback of the room's set on the message.  What a callback
  does is the parameter \<open>invoke\<close>; the store itself is not changed by it.
\<close>

definition broadcast ::
  "('cb \<Rightarrow> 'm \<Rightarrow> 'w \<Rightarrow> 'w outcome) \<Rightarrow> string \<Rightarrow> 'm \<Rightarrow> 'cb MemoryAdapter \<Rightarrow> 'w \<Rightarrow> 'w outcome" where
  "broadcast invoke roomId msg A w =
     (case map_of (subscribers A) roomId of
        None \<Rightarrow> Returned w
      | Some callbacks \<Rightarrow> forEach (\<lambda>callback. invoke callback msg) callbacks w)"

text \<open>\<open>Set.prototype.add\<close>: no effect on a member, a new element goes last.\<close>

definition setAdd :: "'a \<Rightarrow> 'a list \<Rightarrow> 'a list" where
  "setAdd x xs = (if x \<in> set xs then xs else xs @ [x])"

definition subscribe :: "string \<Rightarrow> 'cb \<Rightarrow> 'cb MemoryAdapter \<Rightarrow> 'cb MemoryAdapter" where
  "subscribe roomId callback A =
     (let A1 = (if map_of (subscribers A) roomId = None
                then A\<lparr>subscribers := AList.update roomId [] (subscribers A)\<rparr> else A)
      in case map_of (subscribers A1) roomId of
           None \<Rightarrow> A1
         | Some callbacks \<Rightarrow>
             A1\<lparr>subscribers := AList.update roomId (setAdd callback callbacks) (subscribers A1)\<rparr>)"

definition unsubscribe :: "string \<Rightarrow> 'cb \<Rightarrow> 'cb MemoryAdapter \<Rightarrow> 'cb MemoryAdapter" where
  "unsubscribe roomId callback A =
     (case map_of (subscribers A) roomId of
        None \<Rightarrow> A
      | Some callbacks \<Rightarrow>
          (let callbacks' = removeAll callback callbacks
           in if callbacks' = [] then A\<lparr>subscribers := AList.delete roomId (subscribers A)\<rparr>
              else A\<lparr>subscribers := AList.update roomId callbacks' (subscribers A)\<rparr>))"


section \<open>The distributed Backend Store (class RedisAdapter): membership\<close>

text \<open>
  The Redis commands the membership methods issue, by their documented meaning, on the
  two kinds of key the adapter uses: hashes (\<open>HSET\<close>, \<open>HGET\<close>) and sets (\<open>SADD\<close>).  A key
  that holds nothing does not exist, so both are total functions with an empty default.
  A hash value is the JSON text of a \<open>User\<close>; \<open>JSON.parse\<close> gives back what
  \<open>JSON.stringify\<close> was given, so the value is the \<open>User\<close> itself.  Such a text is never
  empty, hence \<open>if (userData)\<close> tests that the field exists.
\<close>

record Redis =
  hashes :: "string \<Rightarrow> string \<Rightarrow> User option"
  sets :: "string \<Rightarrow> string set"

definition hset :: "string \<Rightarrow> string \<Rightarrow> User \<Rightarrow> Redis \<Rightarrow> Redis" where
  "hset key field v R = R\<lparr>hashes := (hashes R)(key := (hashes R key)(field \<mapsto> v))\<rparr>"

definition hget :: "string \<Rightarrow> string \<Rightarrow> Redis \<Rightarrow> User option" where
  "hget key field R = hashes R key field"

definition sadd :: "string \<Rightarrow> string \<Rightarrow> Redis \<Rightarrow> Redis" where
  "sadd key member R = R\<lparr>sets := (sets R)(key := insert member (sets R key))\<rparr>"

definition usersKey :: "string \<Rightarrow> string" where
  "usersKey roomId = ''room:'' @ roomId @ '':users''"

definition membersKey :: "string \<Rightarrow> string" where
  "membersKey roomId = ''room:'' @ roomId @ '':members''"

definition redis_joinRoom :: "string \<Rightarrow> string \<Rightarrow> UserMetadata option \<Rightarrow> Redis \<Rightarrow> Redis" where
  "redis_joinRoom roomId userId metadata R =
     sadd (membersKey roomId) userId
       (hset (usersKey roomId) userId (newUser roomId userId metadata) R)"

definition redis_updateUser :: "string \<Rightarrow> string \<Rightarrow> PartialUser \<Rightarrow> Redis \<Rightarrow> Redis" where
  "redis_updateUser roomId userId updates R =
     (case hget (usersKey roomId) userId R of
        None \<Rightarrow> R
      | Some user \<Rightarrow> hset (usersKey roomId) userId (assign user updates) R)"


section \<open>The Relay Server (createCollabServer in src/server.ts)\<close>

text \<open>
  A transport connection (\<open>WebSocket\<close>) is a number; its \<open>readyState\<close> is kept in the
  server state.  Interface \<open>ClientConnection\<close> has the fields \<open>ws\<close>, \<open>userId\<close>,
  \<open>roomId\<close>, \<open>metadata\<close>, written with the prefix \<open>conn_\<close>.
\<close>

datatype ReadyState = CONNECTING | OPEN | CLOSING | CLOSED

record ClientConnection =
  conn_ws :: nat
  conn_userId :: string
  conn_roomId :: string
  conn_metadata :: "UserMetadata option"

text \<open>
  The closure \<open>callback\<close> that \<open>subscribeToRoom\<close> creates captures \<open>roomId\<close> (and the
  shared \<open>connections\<close>); its handle is that room name.  Two closures made for the same
  room behave alike, and \<open>roomSubscriptions\<close> holds at most one per room.
\<close>

datatype callback = RoomCallback string

text \<open>
  The state of one server: the adapter (the in-process one), the maps \<open>connections\<close> and
  \<open>roomSubscriptions\<close>, the ready state of every socket, and \<open>sent\<close>, the log of all
  \<open>ws.send\<close> calls in order (socket and message sent).

  Every connection handler has a variable \<open>connection\<close>.  From the first join on it is
  the very object stored in \<open>connections\<close> under the handler's socket (a room switch
  assigns \<open>connection.roomId\<close> and thereby changes the stored object), until the close
  handler deletes the entry, after which the socket delivers no more events.  So the
  variable is the entry \<open>map_of (connections S) sock\<close>.

  Each handler runs to its end before the next event is handled: the adapter calls it
  awaits never suspend on the in-process adapter beyond a microtask, and interleavings of
  handlers at \<open>await\<close> are not modelled.
\<close>

record Server =
  adapter :: "callback MemoryAdapter"
  connections :: "(nat \<times> ClientConnection) list"
  roomSubscriptions :: "(string \<times> callback) list"
  readyState :: "nat \<Rightarrow> ReadyState"
  sent :: "(nat \<times> ServerMessage) list"

definition initialServer :: Server where
  "initialServer = \<lparr> adapter = emptyAdapter, connections = [], roomSubscriptions = [],
                      readyState = (\<lambda>_. CLOSED), sent = [] \<rparr>"

definition send :: "nat \<Rightarrow> ServerMessage \<Rightarrow> Server \<Rightarrow> Server" where
  "send sock msg S = S\<lparr>sent := sent S @ [(sock, msg)]\<rparr>"

definition errorMessage :: "string \<Rightarrow> ServerMessage" where
  "errorMessage e = (message SError)\<lparr>s_error := Some e\<rparr>"

definition presenceMessage :: "User list \<Rightarrow> ServerMessage" where
  "presenceMessage us = (message SPresence)\<lparr>s_users := Some us\<rparr>"

definition updateMessage :: "User \<Rightarrow> ServerMessage" where
  "updateMessage u = (message SUpdate)\<lparr>s_user := Some u\<rparr>"

text \<open>
  The body of the fan-out callback.  \<open>deliver\<close> is its \<open>for\<close> loop over the connections
  of the room: \<open>continue\<close> on the excluded identity, \<open>send\<close> on an open socket.
\<close>

fun deliver :: "string option \<Rightarrow> ServerMessage \<Rightarrow> ClientConnection list \<Rightarrow> Server \<Rightarrow> Server" where
  "deliver ex payload [] S = S"
| "deliver ex payload (conn # conns) S =
     (if ex \<noteq> None \<and> Some (conn_userId conn) = ex then deliver ex payload conns S
      else if readyState S (conn_ws conn) = OPEN
           then deliver ex payload conns (send (conn_ws conn) payload S)
           else deliver ex payload conns S)"

definition roomCallback :: "string \<Rightarrow> ServerMessage \<Rightarrow> Server \<Rightarrow> Server" where
  "roomCallback roomId msg S =
     (let ex = excludeUserId msg;
          payload = msg\<lparr>excludeUserId := None\<rparr>;
          roomConnections = filter (\<lambda>conn. conn_roomId conn = roomId) (map snd (connections S))
      in deliver ex payload roomConnections S)"

text \<open>
  Calling the callback: it is an \<open>async\<close> function without \<open>await\<close>, so its body runs
  during the call and the call itself never throws.
\<close>

fun invoke :: "callback \<Rightarrow> ServerMessage \<Rightarrow> Server \<Rightarrow> Server outcome" where
  "invoke (RoomCallback roomId) msg S = Returned (roomCallback roomId msg S)"

definition subscribeToRoom :: "string \<Rightarrow> Server \<Rightarrow> Server" where
  "subscribeToRoom roomId S =
     (if map_of (roomSubscriptions S) roomId \<noteq> None then S
      else S\<lparr>roomSubscriptions := AList.update roomId (RoomCallback roomId) (roomSubscriptions S),
             adapter := subscribe roomId (RoomCallback roomId) (adapter S)\<rparr>)"

definition unsubscribeFromRoom :: "string \<Rightarrow> Server \<Rightarrow> Server" where
  "unsubscribeFromRoom roomId S =
     (case map_of (roomSubscriptions S) roomId of
        None \<Rightarrow> S
      | Some cb \<Rightarrow> S\<lparr>adapter := unsubscribe roomId cb (adapter S),
                     roomSubscriptions := AList.delete roomId (roomSubscriptions S)\<rparr>)"

text \<open>\<open>excludeUserId ? {...message, _excludeUserId: excludeUserId} : message\<close>.\<close>

definition broadcastToRoom ::
  "string \<Rightarrow> ServerMessage \<Rightarrow> string option \<Rightarrow> Server \<Rightarrow> Server outcome" where
  "broadcastToRoom roomId msg ex S =
     (let payload = (if truthy ex then msg\<lparr>excludeUserId := ex\<rparr> else msg)
      in broadcast invoke roomId payload (adapter S) S)"

text \<open>
  The host's \<open>auth.verifyToken\<close>: it returns an \<open>AuthResult\<close> or throws (\<open>Inl\<close>, with
  the message of the exception).
\<close>

record AuthResult =
  auth_userId :: string
  auth_metadata :: "UserMetadata option"
  auth_error :: "string option"

type_synonym AuthConfig = "string \<Rightarrow> string + AuthResult"

text \<open>
  The three steps that end every join, and the three that start every leave; each is
  written out at every place in the source and named here once.
\<close>

definition enterRoom :: "string \<Rightarrow> string \<Rightarrow> UserMetadata option \<Rightarrow> Server \<Rightarrow> Server outcome" where
  "enterRoom roomId userId metadata S =
     (let S1 = S\<lparr>adapter := joinRoom roomId userId metadata (adapter S)\<rparr>;
          S2 = subscribeToRoom roomId S1
      in broadcastToRoom roomId (presenceMessage (getUsers roomId (adapter S2))) None S2)"

definition departRoom :: "ClientConnection \<Rightarrow> Server \<Rightarrow> Server" where
  "departRoom conn S =
     unsubscribeFromRoom (conn_roomId conn)
       (S\<lparr>adapter := leaveRoom (conn_roomId conn) (conn_userId conn) (adapter S)\<rparr>)"

text \<open>
  The body of the \<open>try\<close> block of the message handler, for a message that parsed.
  \<open>auth\<close> is the configured callback if any, \<open>uuid\<close> the value \<open>crypto.randomUUID()\<close>
  returns if it is called, \<open>sock\<close> the socket the message came in on.
\<close>

definition handleJoin ::
  "AuthConfig option \<Rightarrow> string \<Rightarrow> nat \<Rightarrow> ClientMessage \<Rightarrow> Server \<Rightarrow> Server outcome" where
  "handleJoin auth uuid sock msg S =
     (let connection = map_of (connections S) sock;
          switch = (case connection of
                      None \<Rightarrow> None
                    | Some conn \<Rightarrow>
                        if truthy (m_roomId msg) \<and> m_roomId msg \<noteq> Some (conn_roomId conn)
                        then Some conn else None)
      in case switch of
           Some conn \<Rightarrow>
             (let newRoom = orElse (m_roomId msg) [];
                  S1 = departRoom conn S;
                  S2 = S1\<lparr>connections :=
                            AList.update sock (conn\<lparr>conn_roomId := newRoom\<rparr>) (connections S1)\<rparr>
              in enterRoom newRoom (conn_userId conn) (conn_metadata conn) S2)
         | None \<Rightarrow>
             (case auth of
                None \<Rightarrow>
                  (let roomId = orElse (m_roomId msg) ''default'';
                       conn = \<lparr> conn_ws = sock, conn_userId = uuid, conn_roomId = roomId,
                                conn_metadata = m_metadata msg \<rparr>;
                       S1 = S\<lparr>connections := AList.update sock conn (connections S)\<rparr>
                   in enterRoom roomId uuid (m_metadata msg) S1)
              | Some verifyToken \<Rightarrow>
                  if \<not> truthy (m_token msg)
                  then Returned (send sock
                         (errorMessage ''Authentication required. Token missing.'') S)
                  else
                    (case verifyToken (orElse (m_token msg) []) of
                       Inl e \<Rightarrow> Thrown e S
                     | Inr authResult \<Rightarrow>
                         if truthy (auth_error authResult)
                         then Returned (send sock
                                (errorMessage (orElse (auth_error authResult) [])) S)
                         else
                           (let roomId = orElse (m_roomId msg) ''default'';
                                metadata = (case auth_metadata authResult of
                                              Some m \<Rightarrow> Some m | None \<Rightarrow> m_metadata msg);
                                conn = \<lparr> conn_ws = sock, conn_userId = auth_userId authResult,
                                         conn_roomId = roomId, conn_metadata = metadata \<rparr>;
                                S1 = S\<lparr>connections := AList.update sock conn (connections S)\<rparr>
                            in enterRoom roomId (auth_userId authResult) metadata S1))))"

text \<open>
  \<open>cursor\<close> and \<open>typing\<close> share their tail: update the user, read it back, broadcast it
  to the room without the originator.
\<close>

definition updateAndBroadcast :: "ClientConnection \<Rightarrow> PartialUser \<Rightarrow> Server \<Rightarrow> Server outcome" where
  "updateAndBroadcast conn updates S =
     (let S1 = S\<lparr>adapter := updateUser (conn_roomId conn) (conn_userId conn) updates (adapter S)\<rparr>
      in case find (\<lambda>u. user_id u = conn_userId conn) (getUsers (conn_roomId conn) (adapter S1)) of
           None \<Rightarrow> Returned S1
         | Some u \<Rightarrow>
             broadcastToRoom (conn_roomId conn) (updateMessage u) (Some (conn_userId conn)) S1)"

definition handleMessage ::
  "AuthConfig option \<Rightarrow> string \<Rightarrow> nat \<Rightarrow> ClientMessage \<Rightarrow> Server \<Rightarrow> Server outcome" where
  "handleMessage auth uuid sock msg S =
     (if mtype msg = MJoin then handleJoin auth uuid sock msg S
      else case map_of (connections S) sock of
        None \<Rightarrow>
          Returned (send sock (errorMessage ''Not authenticated. Send join message first.'') S)
      | Some conn \<Rightarrow>
          if mtype msg = MLeave then
            (let S1 = departRoom conn S
             in broadcastToRoom (conn_roomId conn)
                  (presenceMessage (getUsers (conn_roomId conn) (adapter S1))) None S1)
          else if mtype msg = MCursor \<and> m_position msg \<noteq> None then
            updateAndBroadcast conn (noUpdate\<lparr>upd_cursor := Some (m_position msg)\<rparr>) S
          else if mtype msg = MTyping \<and> isTyping msg \<noteq> None then
            updateAndBroadcast conn (noUpdate\<lparr>upd_typing := isTyping msg\<rparr>) S
          else if mtype msg = MPing then Returned (send sock (message SPong) S)
          else if mtype msg = MPong then Returned S
          else if mtype msg = MCustom \<and> truthy (m_event msg) then
            (let found = find (\<lambda>u. user_id u = conn_userId conn)
                           (getUsers (conn_roomId conn) (adapter S));
                 u = (case found of
                        Some u \<Rightarrow> u
                      | None \<Rightarrow> newUser (conn_roomId conn) (conn_userId conn) (conn_metadata conn))
             in broadcastToRoom (conn_roomId conn)
                  ((message SCustom)\<lparr>s_event := m_event msg, s_data := m_data msg,
                                      s_user := Some u\<rparr>)
                  (Some (conn_userId conn)) S)
          else Returned S)"

text \<open>
  The message handler with its \<open>try\<close>/\<open>catch\<close>.  The raw frame is \<open>Inl e\<close> when
  \<open>JSON.parse\<close> (or reading \<open>data.type\<close>) throws with message \<open>e\<close>, and \<open>Inr msg\<close> when
  it parses; the handler sends the message of whatever was thrown back to the sender.
\<close>

definition onMessage ::
  "AuthConfig option \<Rightarrow> string \<Rightarrow> nat \<Rightarrow> string + ClientMessage \<Rightarrow> Server \<Rightarrow> Server" where
  "onMessage auth uuid sock raw S =
     (case raw of
        Inl e \<Rightarrow> send sock (errorMessage e) S
      | Inr msg \<Rightarrow>
          (case handleMessage auth uuid sock msg S of
             Returned S' \<Rightarrow> S'
           | Thrown e S' \<Rightarrow> send sock (errorMessage e) S'))"

text \<open>A new transport connection is open; the close event finds the socket closed.\<close>

definition onConnection :: "nat \<Rightarrow> Server \<Rightarrow> Server" where
  "onConnection sock S = S\<lparr>readyState := (readyState S)(sock := OPEN)\<rparr>"

definition onClose :: "nat \<Rightarrow> Server \<Rightarrow> Server" where
  "onClose sock S0 =
     (let S = S0\<lparr>readyState := (readyState S0)(sock := CLOSED)\<rparr>
      in case map_of (connections S) sock of
           None \<Rightarrow> S
         | Some conn \<Rightarrow>
             (let S1 = departRoom conn S;
                  S2 = stateOf (broadcastToRoom (conn_roomId conn)
                         (presenceMessage (getUsers (conn_roomId conn) (adapter S1))) None S1)
              in S2\<lparr>connections := AList.delete sock (connections S2)\<rparr>))"

text \<open>Events of a run of the server, for the end-to-end scenarios.\<close>

datatype ServerEvent =
  Connect nat
  | Receive nat string ClientMessage
  | Garbage nat string
  | Close nat

fun step :: "AuthConfig option \<Rightarrow> ServerEvent \<Rightarrow> Server \<Rightarrow> Server" where
  "step auth (Connect sock) S = onConnection sock S"
| "step auth (Receive sock uuid msg) S = onMessage auth uuid sock (Inr msg) S"
| "step auth (Garbage sock e) S = onMessage auth [] sock (Inl e) S"
| "step auth (Close sock) S = onClose sock S"

definition run :: "AuthConfig option \<Rightarrow> ServerEvent list \<Rightarrow> Server \<Rightarrow> Server" where
  "run auth evs S = foldl (\<lambda>S ev. step auth ev S) S evs"

text \<open>Who received what: the messages sent to one socket, in order.\<close>

definition received :: "nat \<Rightarrow> Server \<Rightarrow> ServerMessage list" where
  "received sock S = map snd (filter (\<lambda>p. fst p = sock) (sent S))"


section \<open>The Client Session (createCollabClient)\<close>

text \<open>
  \<open>ReconnectConfig\<close>: all fields optional.  The numbers are JavaScript doubles; a
  field holds the real number that the double is (the double written \<open>1.1\<close> is
  \<open>4953959590107546 / 2 ^ 52\<close>).  The option \<open>reconnect\<close> of the client is such an
  object or a boolean.
\<close>

record ReconnectConfig =
  enabled :: "bool option"
  maxRetries :: "real option"
  initialDelay :: "real option"
  maxDelay :: "real option"
  backoffFactor :: "real option"

datatype ReconnectOption = ReconnectFlag bool | ReconnectObject ReconnectConfig

text \<open>\<open>ClientConfig\<close>; its fields carry the prefix \<open>cfg_\<close>.  Times are milliseconds.\<close>

record ClientConfig =
  cfg_url :: string
  cfg_token :: "string option"
  cfg_roomId :: "string option"
  cfg_metadata :: "UserMetadata option"
  cfg_reconnect :: "ReconnectOption option"
  cfg_throttleCursor :: "int option"
  cfg_heartbeatInterval :: "int option"

text \<open>\<open>a ?? d\<close>, and the default of a destructured field, which is the same.\<close>

definition nullish :: "'a option \<Rightarrow> 'a \<Rightarrow> 'a" where
  "nullish a d = (case a of None \<Rightarrow> d | Some v \<Rightarrow> v)"

definition throttleCursor :: "ClientConfig \<Rightarrow> int" where
  "throttleCursor cfg = nullish (cfg_throttleCursor cfg) 50"

definition heartbeatInterval :: "ClientConfig \<Rightarrow> int" where
  "heartbeatInterval cfg = nullish (cfg_heartbeatInterval cfg) 30000"

text \<open>The constant \<open>reconnect\<close>: the normalised reconnect configuration.\<close>

definition reconnect :: "ClientConfig \<Rightarrow> ReconnectConfig" where
  "reconnect cfg =
     (case nullish (cfg_reconnect cfg)
             (ReconnectObject \<lparr> enabled = Some True, maxRetries = None, initialDelay = None,
                                 maxDelay = None, backoffFactor = None \<rparr>) of
        ReconnectFlag b \<Rightarrow>
          \<lparr> enabled = Some b, maxRetries = None, initialDelay = None, maxDelay = None,
            backoffFactor = None \<rparr>
      | ReconnectObject rc \<Rightarrow>
          \<lparr> enabled = Some (enabled rc \<noteq> Some False),
            maxRetries = Some (nullish (maxRetries rc) 10),
            initialDelay = Some (nullish (initialDelay rc) 1000),
            maxDelay = Some (nullish (maxDelay rc) 30000),
            backoffFactor = Some (nullish (backoffFactor rc) 2) \<rparr>)"

datatype ConnectionState = Connecting | Connected | Disconnected | Reconnecting

text \<open>
  The variables of the closure.  \<open>ws\<close> is the socket, if any, as its ready state.  A
  timer variable is \<open>None\<close> when no timer is pending: \<open>reconnectTimer\<close> holds the delay
  its timeout was set with, \<open>cursorThrottleTimer\<close> the time at which its timeout fires,
  \<open>heartbeatTimer\<close> says whether the interval runs.  Two logs stand for the outside:
  \<open>sentMessages\<close>, every \<open>ws.send\<close> with the time it happened, and \<open>emitted\<close>, every
  event handed to \<open>emit\<close>.
\<close>

record Client =
  ws :: "ReadyState option"
  currentRoomId :: string
  connectionState :: ConnectionState
  reconnectAttempts :: nat
  reconnectTimer :: "real option"
  heartbeatTimer :: bool
  lastCursorUpdate :: int
  cursorThrottleTimer :: "int option"
  pendingCursorPosition :: "position option"
  shouldReconnect :: bool
  sentMessages :: "(int \<times> ClientMessage) list"
  emitted :: "ServerMessage list"

text \<open>The variables as they are initialised, before the first \<open>connect()\<close>.\<close>

definition newClient :: "ClientConfig \<Rightarrow> Client" where
  "newClient cfg =
     \<lparr> ws = None, currentRoomId = nullish (cfg_roomId cfg) ''default'',
       connectionState = Connecting, reconnectAttempts = 0, reconnectTimer = None,
       heartbeatTimer = False, lastCursorUpdate = 0, cursorThrottleTimer = None,
       pendingCursorPosition = None, shouldReconnect = True, sentMessages = [],
       emitted = [] \<rparr>"

definition emit :: "ServerMessage \<Rightarrow> Client \<Rightarrow> Client" where
  "emit ev s = s\<lparr>emitted := emitted s @ [ev]\<rparr>"

definition setState :: "ConnectionState \<Rightarrow> Client \<Rightarrow> Client" where
  "setState newState s =
     (if connectionState s \<noteq> newState then
        (let oldState = connectionState s; s1 = s\<lparr>connectionState := newState\<rparr>
         in if newState = Connected \<and> oldState \<noteq> Connected then emit (message SConnected) s1
            else if newState = Disconnected \<and> oldState \<noteq> Disconnected
                 then emit (message SDisconnected) s1
            else s1)
      else s)"

definition stopHeartbeat :: "Client \<Rightarrow> Client" where
  "stopHeartbeat s = (if heartbeatTimer s then s\<lparr>heartbeatTimer := False\<rparr> else s)"

definition startHeartbeat :: "ClientConfig \<Rightarrow> Client \<Rightarrow> Client" where
  "startHeartbeat cfg s =
     (if heartbeatInterval cfg > 0 then (stopHeartbeat s)\<lparr>heartbeatTimer := True\<rparr> else s)"

text \<open>\<open>sendMessage\<close> at time \<open>now\<close>: dropped unless the socket is open.\<close>

definition sendMessage :: "int \<Rightarrow> ClientMessage \<Rightarrow> Client \<Rightarrow> Client" where
  "sendMessage now msg s =
     (if ws s = Some OPEN then s\<lparr>sentMessages := sentMessages s @ [(now, msg)]\<rparr> else s)"

text \<open>
  \<open>connect()\<close>.  \<open>constructed\<close> says whether \<open>new WebSocket(url)\<close> returns (it throws
  on a malformed url, and the \<open>catch\<close> sets the state to disconnected).
\<close>

definition connect :: "bool \<Rightarrow> Client \<Rightarrow> Client" where
  "connect constructed s =
     (if ws s = Some OPEN \<or> ws s = Some CONNECTING then s
      else if constructed
           then setState (if reconnectAttempts s > 0 then Reconnecting else Connecting)
                  (s\<lparr>ws := Some CONNECTING\<rparr>)
           else setState Disconnected s)"

text \<open>\<open>ws.onopen\<close>, handled at time \<open>now\<close>; the transport has opened the socket.\<close>

definition onopen :: "ClientConfig \<Rightarrow> int \<Rightarrow> Client \<Rightarrow> Client" where
  "onopen cfg now s0 =
     (let s = s0\<lparr>ws := Some OPEN\<rparr>;
          s1 = setState Connected (s\<lparr>reconnectAttempts := 0\<rparr>);
          join = (clientMessage MJoin)\<lparr>m_roomId := Some (currentRoomId s1),
                                        m_metadata := cfg_metadata cfg\<rparr>;
          s2 = (if truthy (cfg_token cfg)
                then sendMessage now (join\<lparr>m_token := cfg_token cfg\<rparr>) s1
                else sendMessage now join s1)
      in startHeartbeat cfg s2)"

text \<open>
  The arithmetic of doubles.  The product \<open>a * b\<close> and \<open>Math.pow(b, y)\<close> of the source
  round their results, the first as IEEE 754 prescribes and the second as the JavaScript
  engine implements it; they are the two operations \<open>fmul\<close> and \<open>fpow\<close> of the
  platform the client runs on, and the client is modelled for any such platform.
  Comparing two doubles, \<open>Math.min\<close> and counting attempts are exact.
\<close>

record Arithmetic =
  fmul :: "real \<Rightarrow> real \<Rightarrow> real"
  fpow :: "real \<Rightarrow> real \<Rightarrow> real"

text \<open>
  \<open>ws.onclose\<close> on the platform \<open>fp\<close>; the transport has closed the socket, so if the
  variable \<open>ws\<close> still holds it (\<open>disconnect()\<close> sets the variable to null) its ready
  state is now \<open>CLOSED\<close>.  The delay is
  \<open>Math.min(initialDelay * Math.pow(backoffFactor, reconnectAttempts), maxDelay)\<close>.
\<close>

definition onclose :: "Arithmetic \<Rightarrow> ClientConfig \<Rightarrow> Client \<Rightarrow> Client" where
  "onclose fp cfg s0 =
     (let s = stopHeartbeat (setState Disconnected (s0\<lparr>ws := map_option (\<lambda>_. CLOSED) (ws s0)\<rparr>));
          retries = nullish (maxRetries (reconnect cfg)) 10
      in if shouldReconnect s \<and> enabled (reconnect cfg) = Some True
            \<and> real (reconnectAttempts s) < retries
         then
           (let delay = min (fmul fp (nullish (initialDelay (reconnect cfg)) 1000)
                               (fpow fp (nullish (backoffFactor (reconnect cfg)) 2)
                                  (real (reconnectAttempts s))))
                            (nullish (maxDelay (reconnect cfg)) 30000)
            in s\<lparr>reconnectAttempts := reconnectAttempts s + 1, reconnectTimer := Some delay\<rparr>)
         else if real (reconnectAttempts s) \<ge> retries
              then emit ((message SError)\<lparr>s_error := Some ''Max reconnection attempts reached''\<rparr>) s
              else s)"

text \<open>
  The method \<open>disconnect()\<close> of the caller: no reconnection from now on, all timers
  cleared, the socket closed and forgotten.
\<close>

definition disconnect :: "Client \<Rightarrow> Client" where
  "disconnect s0 =
     (let s = stopHeartbeat (s0\<lparr>shouldReconnect := False\<rparr>)
      in setState Disconnected
           (s\<lparr>reconnectTimer := None, cursorThrottleTimer := None, ws := None\<rparr>))"

text \<open>The reconnect timeout fires: it calls \<open>connect()\<close>.\<close>

definition reconnectTimerFires :: "Client \<Rightarrow> Client" where
  "reconnectTimerFires s = connect True (s\<lparr>reconnectTimer := None\<rparr>)"

text \<open>
  \<open>n\<close> closes in a row, every reconnect attempt in between ending in another close
  before the socket opens: the delays the reconnect timeouts are set with (\<open>None\<close> for
  a close that schedules nothing).
\<close>

fun reconnectDelays :: "Arithmetic \<Rightarrow> ClientConfig \<Rightarrow> nat \<Rightarrow> Client \<Rightarrow> real option list" where
  "reconnectDelays fp cfg 0 s = []"
| "reconnectDelays fp cfg (Suc n) s =
     (let s' = onclose fp cfg s
      in reconnectTimer s' # reconnectDelays fp cfg n (reconnectTimerFires s'))"

definition cursorMessage :: "position \<Rightarrow> string \<Rightarrow> ClientMessage" where
  "cursorMessage pos room = (clientMessage MCursor)\<lparr>m_position := Some pos, m_roomId := Some room\<rparr>"

definition flushCursorUpdate :: "int \<Rightarrow> Client \<Rightarrow> Client" where
  "flushCursorUpdate now s =
     (case pendingCursorPosition s of
        None \<Rightarrow> s
      | Some pos \<Rightarrow>
          (sendMessage now (cursorMessage pos (currentRoomId s)) s)\<lparr>pendingCursorPosition := None\<rparr>)"

text \<open>
  The method \<open>cursor(position)\<close>, called when \<open>Date.now()\<close> is \<open>now\<close>.  A timeout set
  at \<open>now\<close> with delay \<open>d\<close> fires at \<open>now + d\<close>; \<open>clearTimeout\<close> followed by
  \<open>setTimeout\<close> replaces the pending timeout.
\<close>

definition cursorCall :: "ClientConfig \<Rightarrow> int \<Rightarrow> position \<Rightarrow> Client \<Rightarrow> Client" where
  "cursorCall cfg now pos s0 =
     (let s = s0\<lparr>pendingCursorPosition := Some pos\<rparr>
      in if now - lastCursorUpdate s \<ge> throttleCursor cfg
         then (flushCursorUpdate now s)\<lparr>lastCursorUpdate := now\<rparr>
         else s\<lparr>cursorThrottleTimer :=
                  Some (now + (throttleCursor cfg - (now - lastCursorUpdate s)))\<rparr>)"

text \<open>The throttle timeout fires, at the time it was set for.\<close>

definition cursorTimerFires :: "Client \<Rightarrow> Client" where
  "cursorTimerFires s =
     (case cursorThrottleTimer s of
        None \<Rightarrow> s
      | Some due \<Rightarrow> flushCursorUpdate due (s\<lparr>cursorThrottleTimer := None\<rparr>))"

text \<open>
  Time passes until \<open>t\<close>: a throttle timeout due by then fires.  \<open>cursorCalls\<close> is a
  sequence of calls of \<open>cursor\<close> at the given times, with the time passing in between.
\<close>

definition advanceTo :: "int \<Rightarrow> Client \<Rightarrow> Client" where
  "advanceTo t s =
     (case cursorThrottleTimer s of
        None \<Rightarrow> s
      | Some due \<Rightarrow> if due \<le> t then cursorTimerFires s else s)"

fun cursorCalls :: "ClientConfig \<Rightarrow> (int \<times> position) list \<Rightarrow> Client \<Rightarrow> Client" where
  "cursorCalls cfg [] s = s"
| "cursorCalls cfg ((t, pos) # calls) s = cursorCalls cfg calls (cursorCall cfg t pos (advanceTo t s))"

text \<open>
  The same two events in any order whatever: a call of \<open>cursor\<close>, or the timeout firing.
  \<open>lastPosition\<close> is the position of the latest call among the events.
\<close>

datatype CursorEvent = CursorAt int position | TimerFires

fun cursorStep :: "ClientConfig \<Rightarrow> CursorEvent \<Rightarrow> Client \<Rightarrow> Client" where
  "cursorStep cfg (CursorAt now pos) s = cursorCall cfg now pos s"
| "cursorStep cfg TimerFires s = cursorTimerFires s"

definition cursorRun :: "ClientConfig \<Rightarrow> CursorEvent list \<Rightarrow> Client \<Rightarrow> Client" where
  "cursorRun cfg evs s = foldl (\<lambda>s ev. cursorStep cfg ev s) s evs"

fun lastPosition :: "CursorEvent list \<Rightarrow> position option" where
  "lastPosition [] = None"
| "lastPosition (CursorAt now pos # evs) =
     (case lastPosition evs of None \<Rightarrow> Some pos | Some p \<Rightarrow> Some p)"
| "lastPosition (TimerFires # evs) = lastPosition evs"

definition defaultConfig :: ClientConfig where
  "defaultConfig = \<lparr> cfg_url = ''ws://localhost:3001'', cfg_token = None, cfg_roomId = None,
                      cfg_metadata = None, cfg_reconnect = None, cfg_throttleCursor = None,
                      cfg_heartbeatInterval = None \<rparr>"


section \<open>Membership, recipients and scenarios\<close>

text \<open>
  The entry a room holds under an identity, and whether there is one.  \<open>wellKeyed\<close>
  says that every \<open>User\<close> is stored under its own \<open>id\<close>, as \<open>joinRoom\<close> stores it.
\<close>

definition lookupUser :: "string \<Rightarrow> string \<Rightarrow> 'cb MemoryAdapter \<Rightarrow> User option" where
  "lookupUser r u A = (case map_of (rooms A) r of None \<Rightarrow> None | Some room \<Rightarrow> map_of room u)"

definition isMember :: "string \<Rightarrow> string \<Rightarrow> 'cb MemoryAdapter \<Rightarrow> bool" where
  "isMember r u A = (lookupUser r u A \<noteq> None)"

definition wellKeyed :: "'cb MemoryAdapter \<Rightarrow> bool" where
  "wellKeyed A = (\<forall>(r, room) \<in> set (rooms A). \<forall>(k, usr) \<in> set room. user_id usr = k)"

text \<open>
  The connections a message for room \<open>r\<close> tagged with \<open>ex\<close> is meant for: bound to the
  room, of another identity, with an open socket.
\<close>

definition recipients :: "string \<Rightarrow> string option \<Rightarrow> Server \<Rightarrow> ClientConnection list" where
  "recipients r ex S =
     filter (\<lambda>conn. conn_roomId conn = r \<and> Some (conn_userId conn) \<noteq> ex
                    \<and> readyState S (conn_ws conn) = OPEN)
       (map snd (connections S))"

text \<open>
  Scenarios on a server without \<open>auth\<close>: sockets 1 and 2 (then 3) join room \<open>r1\<close> and
  are given the identities \<open>u1\<close>, \<open>u2\<close>, \<open>u3\<close>; in \<open>afterLeave\<close> socket 1 has sent
  \<open>leave\<close>.
\<close>

definition joinMessage :: "string option \<Rightarrow> ClientMessage" where
  "joinMessage r = (clientMessage MJoin)\<lparr>m_roomId := r\<rparr>"

definition typingMessage :: "bool \<Rightarrow> ClientMessage" where
  "typingMessage b = (clientMessage MTyping)\<lparr>isTyping := Some b\<rparr>"

definition twoInRoom :: Server where
  "twoInRoom = run None [Connect 1, Connect 2,
                  Receive 1 ''u1'' (joinMessage (Some ''r1'')),
                  Receive 2 ''u2'' (joinMessage (Some ''r1''))] initialServer"

definition threeInRoom :: Server where
  "threeInRoom = run None [Connect 3, Receive 3 ''u3'' (joinMessage (Some ''r1''))] twoInRoom"

definition afterLeave :: Server where
  "afterLeave = run None [Receive 1 [] (clientMessage MLeave)] twoInRoom"

text \<open>A store in which \<open>u1\<close> is in room \<open>r1\<close> and typing; an empty Redis.\<close>

definition typingStore :: "callback MemoryAdapter" where
  "typingStore = updateUser ''r1'' ''u1'' (noUpdate\<lparr>upd_typing := Some True\<rparr>)
                   (joinRoom ''r1'' ''u1'' None emptyAdapter)"

definition emptyRedis :: Redis where
  "emptyRedis = \<lparr> hashes = (\<lambda>key field. None), sets = (\<lambda>key. {}) \<rparr>"

text \<open>
  Callbacks that record their call in a list; callback 0 throws after recording.
  \<open>probes cbs\<close> is the store after subscribing them to room \<open>r1\<close> in that order.
\<close>

definition probe :: "nat \<Rightarrow> unit \<Rightarrow> nat list \<Rightarrow> nat list outcome" where
  "probe cb msg calls =
     (if cb = 0 then Thrown ''boom'' (calls @ [cb]) else Returned (calls @ [cb]))"

definition probes :: "nat list \<Rightarrow> nat MemoryAdapter" where
  "probes cbs = foldl (\<lambda>A cb. subscribe ''r1'' cb A) emptyAdapter cbs"

text \<open>
  A client configured with \<open>initialDelay = 1000\<close>, \<open>backoffFactor = 2\<close>,
  \<open>maxDelay = 30000\<close>; a session that has connected and opened at time 0; the cursor
  messages a session has sent, with their times.
\<close>

definition backoffConfig :: ClientConfig where
  "backoffConfig = defaultConfig\<lparr>cfg_reconnect := Some (ReconnectObject
     \<lparr> enabled = None, maxRetries = None, initialDelay = Some 1000, maxDelay = Some 30000,
       backoffFactor = Some 2 \<rparr>)\<rparr>"

definition session :: "ClientConfig \<Rightarrow> Client" where
  "session cfg = onopen cfg 0 (connect True (newClient cfg))"

text \<open>
  A platform to run the client on: every result is rounded to the nearest double, ties
  to the even significand, as IEEE 754 does for a product that neither overflows nor is
  subnormal.  \<open>exponentOf x\<close> is the \<open>e\<close> with \<open>2 ^ e \<le> x < 2 ^ (e + 1)\<close> for
  positive \<open>x\<close>, and a double has 53 significant bits.  The power is taken for the
  exponents the client passes, which are counters, and rounded in the same way.
\<close>

definition roundEven :: "real \<Rightarrow> int" where
  "roundEven q =
     (let f = \<lfloor>q\<rfloor>
      in if q - of_int f < 1 / 2 then f
         else if q - of_int f > 1 / 2 then f + 1
         else if even f then f else f + 1)"

definition pow2 :: "int \<Rightarrow> real" where
  "pow2 e = (if e \<ge> 0 then 2 ^ nat e else 1 / 2 ^ nat (- e))"

definition exponentOf :: "real \<Rightarrow> int" where
  "exponentOf x =
     (let e = (if x \<ge> 1 then bitlen \<lfloor>x\<rfloor> - 1 else - bitlen \<lfloor>1 / x\<rfloor>)
      in if x \<ge> pow2 (e + 1) then e + 1 else e)"

definition toDouble :: "real \<Rightarrow> real" where
  "toDouble x =
     (if x = 0 then 0
      else (let u = pow2 (exponentOf \<bar>x\<bar> - 52)
            in sgn x * of_int (roundEven (\<bar>x\<bar> / u)) * u))"

definition ieee :: Arithmetic where
  "ieee = \<lparr> fmul = (\<lambda>a b. toDouble (a * b)), fpow = (\<lambda>b y. toDouble (b ^ nat \<lfloor>y\<rfloor>)) \<rparr>"

text \<open>
  The platform computes the delay of attempt \<open>n\<close> without rounding: the power and the
  product are the exact ones.
\<close>

definition exactAt :: "Arithmetic \<Rightarrow> real \<Rightarrow> real \<Rightarrow> nat \<Rightarrow> bool" where
  "exactAt fp i b n = (fpow fp b (real n) = b ^ n \<and> fmul fp i (b ^ n) = i * b ^ n)"

text \<open>
  Two more configurations: one with none of the defaults (500 ms, factor 3, at most
  10000 ms, 4 retries), one with the factor \<open>1.1\<close>; and a session whose first two
  reconnect attempts have failed.
\<close>

definition customBackoff :: ClientConfig where
  "customBackoff = defaultConfig\<lparr>cfg_reconnect := Some (ReconnectObject
     \<lparr> enabled = Some True, maxRetries = Some 4, initialDelay = Some 500, maxDelay = Some 10000,
       backoffFactor = Some 3 \<rparr>)\<rparr>"

definition fractionalBackoff :: ClientConfig where
  "fractionalBackoff = defaultConfig\<lparr>cfg_reconnect := Some (ReconnectObject
     \<lparr> enabled = None, maxRetries = None, initialDelay = Some 1000, maxDelay = Some 30000,
       backoffFactor = Some (4953959590107546 / 2 ^ 52) \<rparr>)\<rparr>"

definition closedTwice :: "ClientConfig \<Rightarrow> Client" where
  "closedTwice cfg =
     reconnectTimerFires (onclose ieee cfg (reconnectTimerFires (onclose ieee cfg (session cfg))))"

definition cursorSent :: "Client \<Rightarrow> (int \<times> position option) list" where
  "cursorSent s =
     map (\<lambda>(t, m). (t, m_position m)) (filter (\<lambda>(t, m). mtype m = MCursor) (sentMessages s))"


section \<open>Lemmas about the Backend Store\<close>

lemma updateUser_absent: "\<not> isMember r u A \<Longrightarrow> updateUser r u upd A = A"
  by (auto simp: isMember_def lookupUser_def updateUser_def split: option.splits)

lemma redis_updateUser_absent: "hget (usersKey r) u R = None \<Longrightarrow> redis_updateUser r u upd R = R"
  by (simp add: redis_updateUser_def)

lemma find_absent:
  assumes "wellKeyed A" "\<not> isMember r u A"
  shows "find (\<lambda>usr. user_id usr = u) (getUsers r A) = None"
proof (cases "map_of (rooms A) r")
  case None
  then show ?thesis by (simp add: getUsers_def)
next
  case (Some room)
  then have in_rooms: "(r, room) \<in> set (rooms A)" by (rule map_of_SomeD)
  have nokey: "map_of room u = None"
    using assms(2) Some by (simp add: isMember_def lookupUser_def)
  have "(k, usr) \<in> set room \<Longrightarrow> user_id usr \<noteq> u" for k usr
  proof
    fix k usr assume m: "(k, usr) \<in> set room" and e: "user_id usr = u"
    from assms(1) in_rooms m have "user_id usr = k" by (auto simp: wellKeyed_def)
    with e m have "(u, usr) \<in> set room" by simp
    then have "u \<in> fst ` set room" by force
    with nokey show False by (simp add: map_of_eq_None_iff)
  qed
  then have "\<forall>usr \<in> set (map snd room). user_id usr \<noteq> u" by fastforce
  then have "find (\<lambda>usr. user_id usr = u) (map snd room) = None"
    unfolding find_None_iff by blast
  then show ?thesis using Some by (simp add: getUsers_def)
qed

lemma joinRoom_member: "isMember r u A \<Longrightarrow> joinRoom r u m A = A"
  by (auto simp: isMember_def lookupUser_def joinRoom_def split: option.splits)

lemma joinRoom_lookup_new: "\<not> isMember r u A \<Longrightarrow> lookupUser r u (joinRoom r u m A) = Some (newUser r u m)"
  by (auto simp: isMember_def lookupUser_def joinRoom_def Let_def update_conv' split: option.splits)

lemma joinRoom_isMember: "isMember r u (joinRoom r u m A)"
  by (cases "isMember r u A") (simp_all add: joinRoom_member, simp add: isMember_def joinRoom_lookup_new)

lemma joinRoom_idem: "joinRoom r u m (joinRoom r u m A) = joinRoom r u m A"
  by (rule joinRoom_member) (rule joinRoom_isMember)

lemma joinRoom_keeps: "lookupUser r' u' A = Some usr \<Longrightarrow> lookupUser r' u' (joinRoom r u m A) = Some usr"
  by (auto simp: lookupUser_def joinRoom_def Let_def update_conv' split: option.splits if_splits)

lemma redis_joinRoom_idem: "redis_joinRoom r u m (redis_joinRoom r u m R) = redis_joinRoom r u m R"
  by (simp add: redis_joinRoom_def hset_def sadd_def)

lemma redis_joinRoom_hget: "hget (usersKey r) u (redis_joinRoom r u m R) = Some (newUser r u m)"
  by (simp add: redis_joinRoom_def hset_def sadd_def hget_def)

lemma redis_joinRoom_member: "u \<in> sets (redis_joinRoom r u m R) (membersKey r)"
  by (simp add: redis_joinRoom_def hset_def sadd_def hget_def)

lemma rooms_subscribe: "rooms (subscribe r cb A) = rooms A"
  by (simp add: subscribe_def Let_def split: option.splits)

lemma lookupUser_rooms: "rooms A = rooms B \<Longrightarrow> lookupUser r u A = lookupUser r u B"
  by (simp add: lookupUser_def)

text \<open>Iteration: a prefix that returns, and the first callback that throws.\<close>

lemma forEach_append:
  "forEach f (xs @ ys) w = (case forEach f xs w of Returned w' \<Rightarrow> forEach f ys w' | Thrown e w' \<Rightarrow> Thrown e w')"
  by (induction xs arbitrary: w) (auto split: outcome.splits)

lemma forEach_all_return:
  "(\<And>x w. x \<in> set xs \<Longrightarrow> f x w = Returned (stateOf (f x w))) \<Longrightarrow>
   forEach f xs w = Returned (foldl (\<lambda>w x. stateOf (f x w)) w xs)"
proof (induction xs arbitrary: w)
  case Nil then show ?case by simp
next
  case (Cons x xs)
  have "f x w = Returned (stateOf (f x w))" using Cons.prems by simp
  then obtain w' where w': "f x w = Returned w'" ..
  have "forEach f xs w' = Returned (foldl (\<lambda>w x. stateOf (f x w)) w' xs)"
    using Cons.prems by (intro Cons.IH) simp
  then show ?case using w' by simp
qed

lemma forEach_first_throw:
  "forEach f pre w = Returned w1 \<Longrightarrow> f c w1 = Thrown e w2 \<Longrightarrow> forEach f (pre @ c # post) w = Thrown e w2"
  by (simp add: forEach_append)


section \<open>Lemmas about the Relay Server\<close>

text \<open>
  The loop of the fan-out callback appends one send per recipient and changes nothing
  else; so does a whole broadcast, whatever the subscriptions are.
\<close>

lemma deliver_sent:
  "deliver ex payload conns S =
     S\<lparr>sent := sent S @ map (\<lambda>conn. (conn_ws conn, payload))
              (filter (\<lambda>conn. Some (conn_userId conn) \<noteq> ex \<and> readyState S (conn_ws conn) = OPEN) conns)\<rparr>"
proof (induction conns arbitrary: S)
  case Nil
  then show ?case by simp
next
  case (Cons conn conns)
  have skip: "(ex \<noteq> None \<and> Some (conn_userId conn) = ex) = (Some (conn_userId conn) = ex)"
    by auto
  show ?case unfolding deliver.simps skip by (simp add: Cons.IH send_def)
qed

lemma roomCallback_sent:
  "roomCallback r msg S =
     S\<lparr>sent := sent S @ map (\<lambda>conn. (conn_ws conn, msg\<lparr>excludeUserId := None\<rparr>))
                          (recipients r (excludeUserId msg) S)\<rparr>"
  by (simp add: roomCallback_def Let_def deliver_sent recipients_def conj_commute conj_left_commute cong: conj_cong)

lemma forEach_invoke:
  "\<exists>new. forEach (\<lambda>cb. invoke cb msg) cbs S = Returned (S\<lparr>sent := sent S @ new\<rparr>)"
proof (induction cbs arbitrary: S)
  case Nil
  have "S = S\<lparr>sent := sent S @ []\<rparr>" by simp
  then show ?case by (metis forEach.simps(1))
next
  case (Cons cb cbs)
  obtain r where cb: "cb = RoomCallback r" by (cases cb)
  let ?S1 = "roomCallback r msg S"
  obtain n1 where n1: "?S1 = S\<lparr>sent := sent S @ n1\<rparr>" using roomCallback_sent by blast
  obtain n2 where n2: "forEach (\<lambda>cb. invoke cb msg) cbs ?S1 = Returned (?S1\<lparr>sent := sent ?S1 @ n2\<rparr>)"
    using Cons.IH by blast
  have "?S1\<lparr>sent := sent ?S1 @ n2\<rparr> = S\<lparr>sent := sent S @ (n1 @ n2)\<rparr>"
    by (subst (1 2) n1) simp
  then show ?case using n2 cb by auto
qed

lemma broadcastToRoom_sent_only:
  "\<exists>new. broadcastToRoom r msg ex S = Returned (S\<lparr>sent := sent S @ new\<rparr>)"
proof (cases "map_of (subscribers (adapter S)) r")
  case None
  have "S = S\<lparr>sent := sent S @ []\<rparr>" by simp
  then show ?thesis using None by (metis broadcastToRoom_def broadcast_def option.simps(4))
next
  case (Some cbs)
  then show ?thesis using forEach_invoke by (simp add: broadcastToRoom_def broadcast_def Let_def)
qed

lemma broadcastToRoom_subscribed:
  assumes "map_of (subscribers (adapter S)) r = Some [RoomCallback r]" "ex \<noteq> []"
  shows "broadcastToRoom r msg (Some ex) S =
           Returned (S\<lparr>sent := sent S @ map (\<lambda>conn. (conn_ws conn, msg\<lparr>excludeUserId := None\<rparr>))
                                            (recipients r (Some ex) S)\<rparr>)"
  using assms by (simp add: broadcastToRoom_def broadcast_def truthy_def roomCallback_sent)

lemma subscribeToRoom_frame:
  "rooms (adapter (subscribeToRoom r S)) = rooms (adapter S)
   \<and> connections (subscribeToRoom r S) = connections S"
  by (simp add: subscribeToRoom_def rooms_subscribe)

lemma enterRoom_frame:
  "\<exists>S'. enterRoom r u m S = Returned S'
        \<and> rooms (adapter S') = rooms (joinRoom r u m (adapter S))
        \<and> connections S' = connections S"
proof -
  let ?S2 = "subscribeToRoom r (S\<lparr>adapter := joinRoom r u m (adapter S)\<rparr>)"
  let ?msg = "presenceMessage (getUsers r (adapter ?S2))"
  obtain new where "broadcastToRoom r ?msg None ?S2 = Returned (?S2\<lparr>sent := sent ?S2 @ new\<rparr>)"
    using broadcastToRoom_sent_only by blast
  then have "enterRoom r u m S = Returned (?S2\<lparr>sent := sent ?S2 @ new\<rparr>)"
    by (simp add: enterRoom_def Let_def)
  moreover have "rooms (adapter ?S2) = rooms (joinRoom r u m (adapter S))"
    and "connections ?S2 = connections S"
    using subscribeToRoom_frame [of r "S\<lparr>adapter := joinRoom r u m (adapter S)\<rparr>"] by simp_all
  ultimately show ?thesis by simp
qed

lemma updateAndBroadcast_absent:
  assumes "wellKeyed (adapter S)" "\<not> isMember (conn_roomId conn) (conn_userId conn) (adapter S)"
  shows "updateAndBroadcast conn upd S = Returned S"
  using assms find_absent[OF assms] by (simp add: updateAndBroadcast_def updateUser_absent)


section \<open>Lemmas about the Client Session\<close>

text \<open>The normalised configuration, in terms of what the caller passed.\<close>

lemma reconnect_object:
  assumes "cfg_reconnect cfg = Some (ReconnectObject rc)"
  shows "enabled (reconnect cfg) = Some (enabled rc \<noteq> Some False)"
    and "nullish (maxRetries (reconnect cfg)) 10 = (case maxRetries rc of None \<Rightarrow> 10 | Some r \<Rightarrow> r)"
    and "nullish (initialDelay (reconnect cfg)) 1000
           = (case initialDelay rc of None \<Rightarrow> 1000 | Some i \<Rightarrow> i)"
    and "nullish (backoffFactor (reconnect cfg)) 2
           = (case backoffFactor rc of None \<Rightarrow> 2 | Some b \<Rightarrow> b)"
    and "nullish (maxDelay (reconnect cfg)) 30000
           = (case maxDelay rc of None \<Rightarrow> 30000 | Some m \<Rightarrow> m)"
  using assms by (simp_all add: reconnect_def nullish_def split: option.splits)

lemma reconnect_default:
  assumes "cfg_reconnect cfg = None \<or> cfg_reconnect cfg = Some (ReconnectFlag True)"
  shows "enabled (reconnect cfg) = Some True"
    and "nullish (maxRetries (reconnect cfg)) 10 = 10"
    and "nullish (initialDelay (reconnect cfg)) 1000 = 1000"
    and "nullish (backoffFactor (reconnect cfg)) 2 = 2"
    and "nullish (maxDelay (reconnect cfg)) 30000 = 30000"
  using assms by (auto simp: reconnect_def nullish_def)

lemma onclose_schedules:
  assumes "shouldReconnect s" "enabled (reconnect cfg) = Some True"
      "real (reconnectAttempts s) < nullish (maxRetries (reconnect cfg)) 10"
  shows "onclose fp cfg s =
     (stopHeartbeat (setState Disconnected (s\<lparr>ws := map_option (\<lambda>_. CLOSED) (ws s)\<rparr>)))
       \<lparr>reconnectAttempts := reconnectAttempts s + 1,
        reconnectTimer := Some (min (fmul fp (nullish (initialDelay (reconnect cfg)) 1000)
                                       (fpow fp (nullish (backoffFactor (reconnect cfg)) 2)
                                          (real (reconnectAttempts s))))
                                    (nullish (maxDelay (reconnect cfg)) 30000))\<rparr>"
proof -
  let ?s = "stopHeartbeat (setState Disconnected (s\<lparr>ws := map_option (\<lambda>_. CLOSED) (ws s)\<rparr>))"
  have keep: "shouldReconnect ?s = shouldReconnect s \<and> reconnectAttempts ?s = reconnectAttempts s"
    by (simp add: stopHeartbeat_def setState_def emit_def Let_def)
  show ?thesis using assms keep by (simp add: onclose_def Let_def)
qed

text \<open>After \<open>disconnect()\<close> a close schedules no reconnect.\<close>

lemma onclose_after_disconnect:
  "reconnectTimer (onclose fp cfg (disconnect s)) = None
   \<and> reconnectAttempts (onclose fp cfg (disconnect s)) = reconnectAttempts s"
  by (simp add: onclose_def disconnect_def stopHeartbeat_def setState_def emit_def Let_def)

text \<open>
  A failed attempt leaves the session willing to reconnect, with the counter one
  higher; so \<open>n\<close> closes in a row set the delays of \<open>n\<close> successive attempts.
\<close>

lemma failed_attempt:
  assumes "shouldReconnect s" "enabled (reconnect cfg) = Some True"
      "real (reconnectAttempts s) < nullish (maxRetries (reconnect cfg)) 10"
  shows "shouldReconnect (reconnectTimerFires (onclose fp cfg s))
       \<and> reconnectAttempts (reconnectTimerFires (onclose fp cfg s)) = reconnectAttempts s + 1"
  unfolding onclose_schedules [OF assms] using assms(1)
  by (simp add: reconnectTimerFires_def connect_def stopHeartbeat_def setState_def emit_def Let_def)

lemma reconnectDelays_run:
  assumes "shouldReconnect s" "enabled (reconnect cfg) = Some True"
      "real (reconnectAttempts s + n) \<le> nullish (maxRetries (reconnect cfg)) 10"
  shows "reconnectDelays fp cfg n s
           = map (\<lambda>k. Some (min (fmul fp (nullish (initialDelay (reconnect cfg)) 1000)
                                   (fpow fp (nullish (backoffFactor (reconnect cfg)) 2) (real k)))
                                (nullish (maxDelay (reconnect cfg)) 30000)))
               [reconnectAttempts s ..< reconnectAttempts s + n]"
  using assms
proof (induction n arbitrary: s)
  case 0
  then show ?case by simp
next
  case (Suc n)
  let ?s = "reconnectTimerFires (onclose fp cfg s)"
  have left: "real (reconnectAttempts s) < nullish (maxRetries (reconnect cfg)) 10"
    using Suc.prems(3) by simp
  have next_state: "shouldReconnect ?s \<and> reconnectAttempts ?s = reconnectAttempts s + 1"
    using Suc.prems(1,2) left by (rule failed_attempt)
  have rest: "reconnectDelays fp cfg n ?s
           = map (\<lambda>k. Some (min (fmul fp (nullish (initialDelay (reconnect cfg)) 1000)
                                   (fpow fp (nullish (backoffFactor (reconnect cfg)) 2) (real k)))
                                (nullish (maxDelay (reconnect cfg)) 30000)))
               [reconnectAttempts ?s ..< reconnectAttempts ?s + n]"
    using next_state Suc.prems(2,3) by (intro Suc.IH) simp_all
  have first: "reconnectTimer (onclose fp cfg s)
           = Some (min (fmul fp (nullish (initialDelay (reconnect cfg)) 1000)
                         (fpow fp (nullish (backoffFactor (reconnect cfg)) 2)
                            (real (reconnectAttempts s))))
                       (nullish (maxDelay (reconnect cfg)) 30000))"
    by (simp add: onclose_schedules [OF Suc.prems(1,2) left])
  have range: "[reconnectAttempts s ..< reconnectAttempts s + Suc n]
           = reconnectAttempts s # [reconnectAttempts s + 1 ..< reconnectAttempts s + 1 + n]"
    by (simp add: upt_conv_Cons)
  show ?case
    unfolding reconnectDelays.simps Let_def first rest range using next_state by simp
qed

lemma backoff_delays:
  assumes "list_all (exactAt fp 1000 2) [0..<6]"
  shows "reconnectDelays fp backoffConfig 6 (session backoffConfig)
     = [Some 1000, Some 2000, Some 4000, Some 8000, Some 16000, Some 30000]"
proof -
  have obj: "cfg_reconnect backoffConfig = Some (ReconnectObject
     \<lparr> enabled = None, maxRetries = None, initialDelay = Some 1000, maxDelay = Some 30000,
       backoffFactor = Some 2 \<rparr>)"
    by (simp add: backoffConfig_def)
  note conf = reconnect_object [OF obj]
  have live: "shouldReconnect (session backoffConfig)" by code_simp
  have zero: "reconnectAttempts (session backoffConfig) = 0" by code_simp
  have on: "enabled (reconnect backoffConfig) = Some True" using conf(1) by simp
  have left: "real (reconnectAttempts (session backoffConfig) + 6)
                \<le> nullish (maxRetries (reconnect backoffConfig)) 10"
    using conf(2) zero by simp
  have six: "[0..<6] = [0, 1, 2, 3, 4, 5::nat]" by code_simp
  have exact: "fpow fp 2 (real k) = 2 ^ k \<and> fmul fp 1000 (2 ^ k) = 1000 * 2 ^ k"
    if "k \<in> set [0, 1, 2, 3, 4, 5::nat]" for k
    using assms that unfolding six list_all_iff exactAt_def by blast
  have run: "reconnectDelays fp backoffConfig 6 (session backoffConfig)
     = map (\<lambda>k. Some (min (fmul fp 1000 (fpow fp 2 (real k))) 30000)) [0..<6]"
    using reconnectDelays_run [OF live on left, of fp] conf zero by simp
  show ?thesis
    unfolding run six
    using exact [of 0] exact [of 1] exact [of 2] exact [of 3] exact [of 4] exact [of 5]
    by simp
qed

text \<open>
  The rounding platform is exact on the products of the standard configuration and of
  \<open>customBackoff\<close>; with the factor \<open>1.1\<close> it rounds, to
  \<open>1210.0000000000002\<close> and \<open>1331.0000000000005\<close> for the third and fourth attempt.
\<close>

lemma ieee_exact_standard: "list_all (exactAt ieee 1000 2) [0..<6]"
  by code_simp

lemma ieee_exact_custom: "list_all (exactAt ieee 500 3) [0..<4]"
  by code_simp

lemma ieee_fractional_powers:
  "fpow ieee (4953959590107546 / 2 ^ 52) (real 2) = 5449355549118301 / 2 ^ 52
   \<and> fpow ieee (4953959590107546 / 2 ^ 52) (real 3) = 5994291104030132 / 2 ^ 52"
  by code_simp

lemma ieee_fractional_products:
  "fmul ieee 1000 (5449355549118301 / 2 ^ 52) = 1210 + 1 / 2 ^ 42
   \<and> fmul ieee 1000 (5994291104030132 / 2 ^ 52) = 1331 + 1 / 2 ^ 41"
  by code_simp

lemma flush_sent:
  "sentMessages (flushCursorUpdate now s)
     = sentMessages s @ (case pendingCursorPosition s of
                           None \<Rightarrow> []
                         | Some pos \<Rightarrow> if ws s = Some OPEN
                                        then [(now, cursorMessage pos (currentRoomId s))] else [])"
  by (simp add: flushCursorUpdate_def sendMessage_def split: option.splits)

lemma flush_pending: "pendingCursorPosition (flushCursorUpdate now s) = None"
  by (simp add: flushCursorUpdate_def sendMessage_def split: option.splits)

lemma cursorMessage_fields:
  "mtype (cursorMessage pos room) = MCursor \<and> m_position (cursorMessage pos room) = Some pos"
  by (simp add: cursorMessage_def clientMessage_def)

lemma lastPosition_snoc:
  "lastPosition (evs @ [ev]) = (case ev of CursorAt now pos \<Rightarrow> Some pos | TimerFires \<Rightarrow> lastPosition evs)"
  by (induction evs rule: lastPosition.induct) (auto split: CursorEvent.splits option.splits)

lemma cursorRun_snoc: "cursorRun cfg (evs @ [ev]) s = cursorStep cfg ev (cursorRun cfg evs s)"
  by (simp add: cursorRun_def)

text \<open>
  What is pending is always the position of the latest call, so that is what a flush
  sends.
\<close>

lemma pending_invariant:
  "pendingCursorPosition s = None \<Longrightarrow>
   pendingCursorPosition (cursorRun cfg evs s) = None
   \<or> pendingCursorPosition (cursorRun cfg evs s) = lastPosition evs"
proof (induction evs rule: rev_induct)
  case Nil
  then show ?case by (simp add: cursorRun_def)
next
  case (snoc ev evs)
  show ?case
  proof (cases ev)
    case (CursorAt now pos)
    then show ?thesis
      by (simp add: cursorRun_snoc lastPosition_snoc cursorCall_def Let_def flush_pending)
  next
    case TimerFires
    then show ?thesis using snoc
      by (auto simp: cursorRun_snoc lastPosition_snoc cursorTimerFires_def flush_pending
          split: option.splits)
  qed
qed

lemma freshest_step:
  assumes idle: "pendingCursorPosition s = None"
  shows "\<exists>new. sentMessages (cursorRun cfg (evs @ [ev]) s) = sentMessages (cursorRun cfg evs s) @ new
           \<and> length new \<le> 1
           \<and> (\<forall>(t, m) \<in> set new. mtype m = MCursor \<and> m_position m \<noteq> None
                 \<and> m_position m = lastPosition (evs @ [ev]))"
proof -
  let ?s = "cursorRun cfg evs s"
  have inv: "pendingCursorPosition ?s = None \<or> pendingCursorPosition ?s = lastPosition evs"
    using idle by (rule pending_invariant)
  show ?thesis
  proof (cases ev)
    case (CursorAt now pos)
    then show ?thesis
      by (simp add: cursorRun_snoc lastPosition_snoc cursorCall_def Let_def flush_sent
          cursorMessage_fields)
  next
    case TimerFires
    then show ?thesis using inv
      by (auto simp: cursorRun_snoc lastPosition_snoc cursorTimerFires_def flush_sent
          cursorMessage_fields split: option.splits)
  qed
qed

lemma two_calls:
  assumes "ws s = Some OPEN" "pendingCursorPosition s = None" "throttleCursor cfg = 50"
      "lastCursorUpdate s + 50 \<le> T"
  shows "sentMessages (advanceTo (T + 50) (cursorCalls cfg [(T, p1), (T + 10, p2)] s))
           = sentMessages s @ [(T, cursorMessage p1 (currentRoomId s)),
                               (T + 50, cursorMessage p2 (currentRoomId s))]"
  using assms
  by (auto simp: advanceTo_def cursorCall_def cursorTimerFires_def flushCursorUpdate_def
      sendMessage_def Let_def split: option.splits)


section \<open>The claims\<close>

subsection \<open>C1: subscriptions and room membership\<close>

text \<open>
  C1 says that a room has a subscriber callback registered with the Backend Store if and
  only if at least one local connection is bound to it, and in particular that the
  subscription survives when one of several connections of a room leaves.  The code does
  not keep it: \<open>subscribeToRoom\<close> registers one callback per room for all its
  connections, and \<open>unsubscribeFromRoom\<close> removes it whenever any one of them leaves.
  With sockets 1, 2, 3 in room \<open>r1\<close>, after socket 1 closes the other two are still
  bound to \<open>r1\<close>, neither \<open>roomSubscriptions\<close> nor the store has a subscriber for
  \<open>r1\<close>, and a typing update of socket 2 reaches nobody; the presence message that the
  close handler broadcasts to the remaining members reaches nobody either.  After a
  \<open>leave\<close> message the leaving socket, too, stays bound in \<open>connections\<close>.
\<close>

theorem subscription_dropped_when_one_leaves:
  "map (\<lambda>(sock, conn). (sock, conn_roomId conn)) (connections (run None [Close 1] threeInRoom))
     = [(2, ''r1''), (3, ''r1'')]
   \<and> map_of (roomSubscriptions (run None [Close 1] threeInRoom)) ''r1'' = None
   \<and> map_of (subscribers (adapter (run None [Close 1] threeInRoom))) ''r1'' = None
   \<and> received 3 (run None [Close 1, Receive 2 [] (typingMessage True)] threeInRoom)
       = received 3 threeInRoom
   \<and> received 2 (run None [Close 1] threeInRoom) = received 2 threeInRoom
   \<and> map (\<lambda>(sock, conn). (sock, conn_roomId conn))
        (connections (run None [Receive 1 [] (clientMessage MLeave)] threeInRoom))
       = [(1, ''r1''), (2, ''r1''), (3, ''r1'')]
   \<and> map_of (roomSubscriptions (run None [Receive 1 [] (clientMessage MLeave)] threeInRoom)) ''r1''
       = None"
  by code_simp


subsection \<open>C2: switching rooms\<close>

text \<open>
  C2 says that a join for another room B by a connection bound to room A performs
  \<open>leaveRoom\<close>(A), unsubscribe(A), a presence broadcast to A, then \<open>joinRoom\<close>(B),
  subscribe(B) and a presence broadcast to B.  The switch branch of the handler has no
  broadcast for A (the \<open>leave\<close> and close handlers have one): with sockets 1 and 2 in
  \<open>r1\<close>, when socket 1 joins \<open>r2\<close> the only message sent is the presence of \<open>r2\<close>
  to socket 1, and socket 2 receives nothing.
\<close>

theorem room_switch_skips_old_room_presence:
  "map (\<lambda>(sock, conn). (sock, conn_roomId conn)) (connections twoInRoom) = [(1, ''r1''), (2, ''r1'')]
   \<and> drop (length (sent twoInRoom))
        (sent (run None [Receive 1 [] (joinMessage (Some ''r2''))] twoInRoom))
       = [(1, presenceMessage [newUser ''r2'' ''u1'' None])]
   \<and> received 2 (run None [Receive 1 [] (joinMessage (Some ''r2''))] twoInRoom)
       = received 2 twoInRoom"
  by code_simp


subsection \<open>C3: excluding the originator\<close>

text \<open>
  C3: a broadcast tagged with an excluded identity is delivered to every connection of
  the room whose identity differs (and whose socket is open), to no connection whose
  identity is the excluded one, and what is sent never carries the marker.  Stated for a
  room whose callback is registered with the store and a state in which every connection
  has its own socket: the broadcast changes nothing but the log of sends, to which it
  appends the message without the marker, once per recipient.
\<close>

theorem exclusion_fanout:
  assumes sub: "map_of (subscribers (adapter S)) r = Some [RoomCallback r]"
      and tag: "ex \<noteq> []"
      and socks: "distinct (map (conn_ws \<circ> snd) (connections S))"
  shows "\<exists>new. broadcastToRoom r msg (Some ex) S = Returned (S\<lparr>sent := sent S @ new\<rparr>)
           \<and> new = map (\<lambda>conn. (conn_ws conn, msg\<lparr>excludeUserId := None\<rparr>)) (recipients r (Some ex) S)
           \<and> (\<forall>conn \<in> snd ` set (connections S).
                 conn_roomId conn = r \<and> conn_userId conn \<noteq> ex \<and> readyState S (conn_ws conn) = OPEN
                 \<longrightarrow> (conn_ws conn, msg\<lparr>excludeUserId := None\<rparr>) \<in> set new)
           \<and> (\<forall>conn \<in> snd ` set (connections S).
                 conn_userId conn = ex \<longrightarrow> conn_ws conn \<notin> fst ` set new)
           \<and> (\<forall>(sock, payload) \<in> set new. excludeUserId payload = None)"
proof -
  let ?payload = "msg\<lparr>excludeUserId := None\<rparr>"
  let ?new = "map (\<lambda>conn. (conn_ws conn, ?payload)) (recipients r (Some ex) S)"
  have run: "broadcastToRoom r msg (Some ex) S = Returned (S\<lparr>sent := sent S @ ?new\<rparr>)"
    using sub tag by (rule broadcastToRoom_subscribed)
  have all: "(conn_ws conn, ?payload) \<in> set ?new"
    if "conn \<in> snd ` set (connections S)" "conn_roomId conn = r" "conn_userId conn \<noteq> ex"
       "readyState S (conn_ws conn) = OPEN" for conn
  proof -
    have "conn \<in> set (recipients r (Some ex) S)" using that by (simp add: recipients_def)
    then show ?thesis by (simp add: image_iff) blast
  qed
  have none: "conn_ws conn \<notin> fst ` set ?new"
    if mem: "conn \<in> snd ` set (connections S)" and same: "conn_userId conn = ex" for conn
  proof
    assume "conn_ws conn \<in> fst ` set ?new"
    then obtain c where c: "c \<in> set (recipients r (Some ex) S)" and ws: "conn_ws c = conn_ws conn"
      by (auto simp: image_iff)
    from c have cmem: "c \<in> set (map snd (connections S))" and differs: "conn_userId c \<noteq> ex"
      by (auto simp: recipients_def)
    have "distinct (map conn_ws (map snd (connections S)))" using socks by simp
    then have "inj_on conn_ws (set (map snd (connections S)))" by (simp only: distinct_map)
    moreover have "conn \<in> set (map snd (connections S))" using mem by simp
    ultimately have "c = conn" using cmem ws by (auto dest: inj_onD)
    with differs same show False by simp
  qed
  have stripped: "\<forall>(sock, payload) \<in> set ?new. excludeUserId payload = None" by auto
  show ?thesis using run all none stripped by blast
qed

text \<open>In \<open>twoInRoom\<close>, an update excluding \<open>u1\<close> reaches socket 2 and not socket 1.\<close>

theorem exclusion_fanout_witness:
  "map_of (subscribers (adapter twoInRoom)) ''r1'' = Some [RoomCallback ''r1'']
   \<and> ''u1'' \<noteq> []
   \<and> distinct (map (conn_ws \<circ> snd) (connections twoInRoom))
   \<and> received 2 (stateOf (broadcastToRoom ''r1'' (message SUpdate) (Some ''u1'') twoInRoom))
        = received 2 twoInRoom @ [message SUpdate]
   \<and> received 1 (stateOf (broadcastToRoom ''r1'' (message SUpdate) (Some ''u1'') twoInRoom))
        = received 1 twoInRoom"
proof -
  have h1: "map_of (subscribers (adapter twoInRoom)) ''r1'' = Some [RoomCallback ''r1'']"
    by code_simp
  have h2: "''u1'' \<noteq> []" by simp
  have h3: "distinct (map (conn_ws \<circ> snd) (connections twoInRoom))" by code_simp
  have rc: "recipients ''r1'' (Some ''u1'') twoInRoom
              = [\<lparr>conn_ws = 2, conn_userId = ''u2'', conn_roomId = ''r1'', conn_metadata = None\<rparr>]"
    by code_simp
  from exclusion_fanout [OF h1 h2 h3, of "message SUpdate"] rc
  have "broadcastToRoom ''r1'' (message SUpdate) (Some ''u1'') twoInRoom
          = Returned (twoInRoom\<lparr>sent := sent twoInRoom @ [(2, (message SUpdate)\<lparr>excludeUserId := None\<rparr>)]\<rparr>)"
    by auto
  then show ?thesis using h1 h3 by (simp add: received_def message_def)
qed


subsection \<open>C4: a callback that throws\<close>

text \<open>
  C4 says that \<open>broadcast\<close> calls every registered callback even when an earlier one
  throws.  \<open>MemoryAdapter.broadcast\<close> iterates with \<open>forEach\<close> and catches nothing.
  What holds instead: when no callback of the room throws, all of them are called, in
  the order of registration; when one throws, the callbacks before it and itself have
  been called, the exception leaves \<open>broadcast\<close>, and the callbacks after it are not
  called.
\<close>

theorem broadcast_until_first_throw:
  assumes subs: "map_of (subscribers A) r = Some cbs"
  shows "((\<forall>cb \<in> set cbs. \<forall>w. call cb msg w = Returned (stateOf (call cb msg w)))
            \<longrightarrow> broadcast call r msg A w = Returned (foldl (\<lambda>w cb. stateOf (call cb msg w)) w cbs))
       \<and> (\<forall>pre c post e w1 w2.
            cbs = pre @ c # post \<and> forEach (\<lambda>cb. call cb msg) pre w = Returned w1
              \<and> call c msg w1 = Thrown e w2
            \<longrightarrow> broadcast call r msg A w = Thrown e w2)"
proof -
  have b: "broadcast call r msg A w = forEach (\<lambda>cb. call cb msg) cbs w"
    using subs by (simp add: broadcast_def)
  have all: "forEach (\<lambda>cb. call cb msg) cbs w = Returned (foldl (\<lambda>w cb. stateOf (call cb msg w)) w cbs)"
    if "\<forall>cb \<in> set cbs. \<forall>w. call cb msg w = Returned (stateOf (call cb msg w))"
    using that by (intro forEach_all_return) simp
  have stop: "forEach (\<lambda>cb. call cb msg) cbs w = Thrown e w2"
    if "cbs = pre @ c # post" "forEach (\<lambda>cb. call cb msg) pre w = Returned w1"
       "call c msg w1 = Thrown e w2" for pre c post e w1 w2
    using that by (simp add: forEach_first_throw)
  show ?thesis unfolding b using all stop by blast
qed

text \<open>Callbacks 1, 2 are both called; of 1, 0, 2 the last one is not.\<close>

theorem broadcast_until_first_throw_witness:
  "map_of (subscribers (probes [1, 2])) ''r1'' = Some [1, 2]
   \<and> broadcast probe ''r1'' () (probes [1, 2]) [] = Returned [1, 2]
   \<and> map_of (subscribers (probes [1, 0, 2])) ''r1'' = Some [1, 0, 2]
   \<and> broadcast probe ''r1'' () (probes [1, 0, 2]) [] = Thrown ''boom'' [1, 0]"
proof -
  have s1: "map_of (subscribers (probes [1, 2])) ''r1'' = Some [1, 2]" by code_simp
  have s2: "map_of (subscribers (probes [1, 0, 2])) ''r1'' = Some [1, 0, 2]" by code_simp
  have ret: "\<forall>cb \<in> set [1, 2]. \<forall>w. probe cb () w = Returned (stateOf (probe cb () w))"
    by (simp add: probe_def)
  have pre: "forEach (\<lambda>cb. probe cb ()) [1] [] = Returned [1]" by (simp add: probe_def)
  have thr: "probe 0 () [1] = Thrown ''boom'' [1, 0]" by (simp add: probe_def)
  have split: "[1, 0, 2] = [1] @ 0 # [2::nat]" by simp
  have a: "broadcast probe ''r1'' () (probes [1, 2]) [] = Returned [1, 2]"
    using broadcast_until_first_throw [OF s1, of probe "()" "[]"] ret by (simp add: probe_def)
  have b: "broadcast probe ''r1'' () (probes [1, 0, 2]) [] = Thrown ''boom'' [1, 0]"
    using broadcast_until_first_throw [OF s2, of probe "()" "[]"] pre thr split by blast
  show ?thesis using s1 s2 a b by simp
qed

text \<open>
  C4 as stated fails: callback 0 is registered before callback 1 and throws, and
  callback 1 is never called.
\<close>

theorem broadcast_throw_counterexample:
  "map_of (subscribers (probes [0, 1])) ''r1'' = Some [0, 1]
   \<and> broadcast probe ''r1'' () (probes [0, 1]) [] = Thrown ''boom'' [0]
   \<and> 1 \<notin> set (stateOf (broadcast probe ''r1'' () (probes [0, 1]) []))"
  by code_simp


subsection \<open>C5: updating an absent user\<close>

text \<open>
  C5: when \<open>userId\<close> is not a member of \<open>roomId\<close>, \<open>updateUser\<close> changes nothing: the
  store is the same afterwards, in particular no entry is created and the number of
  members is the same; the same holds for the Redis adapter; and the relay's handler of
  \<open>cursor\<close> and \<open>typing\<close>, which calls \<open>updateUser\<close> and then broadcasts the user it
  reads back, sends nothing and leaves the whole server state as it was.
\<close>

theorem updateUser_absent_noop:
  assumes absent: "\<not> isMember r u A"
  shows "updateUser r u upd A = A
       \<and> \<not> isMember r u (updateUser r u upd A)
       \<and> length (getUsers r (updateUser r u upd A)) = length (getUsers r A)
       \<and> (hget (usersKey r) u R = None \<longrightarrow> redis_updateUser r u upd R = R)
       \<and> (map_of (connections S) sock = Some conn
            \<and> \<not> isMember (conn_roomId conn) (conn_userId conn) (adapter S)
            \<and> wellKeyed (adapter S)
            \<and> (mtype msg = MCursor \<and> m_position msg \<noteq> None
                 \<or> mtype msg = MTyping \<and> isTyping msg \<noteq> None)
          \<longrightarrow> onMessage auth uuid sock (Inr msg) S = S)"
proof -
  have store: "updateUser r u upd A = A" using absent by (rule updateUser_absent)
  have redis: "hget (usersKey r) u R = None \<longrightarrow> redis_updateUser r u upd R = R"
    by (simp add: redis_updateUser_absent)
  have server: "onMessage auth uuid sock (Inr msg) S = S"
    if b: "map_of (connections S) sock = Some conn"
    and a: "\<not> isMember (conn_roomId conn) (conn_userId conn) (adapter S)"
    and k: "wellKeyed (adapter S)"
    and t: "mtype msg = MCursor \<and> m_position msg \<noteq> None \<or> mtype msg = MTyping \<and> isTyping msg \<noteq> None"
  proof -
    have "updateAndBroadcast conn upd' S = Returned S" for upd'
      using k a by (rule updateAndBroadcast_absent)
    then have "handleMessage auth uuid sock msg S = Returned S"
      using b t by (auto simp: handleMessage_def)
    then show ?thesis by (simp add: onMessage_def)
  qed
  show ?thesis using store absent redis server by simp
qed

text \<open>
  In \<open>afterLeave\<close> socket 1 is still bound as \<open>u1\<close> to \<open>r1\<close>, which \<open>u1\<close> has left:
  its typing message changes nothing.
\<close>

theorem updateUser_absent_noop_witness:
  "\<not> isMember ''r1'' ''u1'' (adapter afterLeave)
   \<and> updateUser ''r1'' ''u1'' (noUpdate\<lparr>upd_typing := Some True\<rparr>) (adapter afterLeave) = adapter afterLeave
   \<and> hget (usersKey ''r1'') ''u1'' emptyRedis = None
   \<and> redis_updateUser ''r1'' ''u1'' (noUpdate\<lparr>upd_typing := Some True\<rparr>) emptyRedis = emptyRedis
   \<and> map_of (connections afterLeave) 1
        = Some \<lparr> conn_ws = 1, conn_userId = ''u1'', conn_roomId = ''r1'', conn_metadata = None \<rparr>
   \<and> wellKeyed (adapter afterLeave)
   \<and> onMessage None [] 1 (Inr (typingMessage True)) afterLeave = afterLeave"
proof -
  let ?conn = "\<lparr> conn_ws = 1, conn_userId = ''u1'', conn_roomId = ''r1'', conn_metadata = None \<rparr>"
  have a: "\<not> isMember ''r1'' ''u1'' (adapter afterLeave)" by code_simp
  have h: "hget (usersKey ''r1'') ''u1'' emptyRedis = None" by (simp add: hget_def emptyRedis_def)
  have b: "map_of (connections afterLeave) 1 = Some ?conn" by code_simp
  have k: "wellKeyed (adapter afterLeave)" by code_simp
  have t: "mtype (typingMessage True) = MTyping \<and> isTyping (typingMessage True) \<noteq> None"
    by code_simp
  show ?thesis
    using updateUser_absent_noop [OF a, of "noUpdate\<lparr>upd_typing := Some True\<rparr>" emptyRedis
            afterLeave 1 ?conn "typingMessage True" None "[]"] a h b k t
    by simp
qed


subsection \<open>C6: joining a room\<close>

text \<open>
  C6 says that after \<open>joinRoom\<close> the room holds a User with the given id, null cursor,
  \<open>typing = false\<close> and the given metadata, and that a second identical call changes
  nothing.  The in-process adapter guards the insertion with \<open>!room.has(userId)\<close>.  What
  holds: afterwards the room has an entry for \<open>userId\<close>; if there was none, it is the
  fresh User just described; if there was one, the in-process store is left exactly as it
  was; the Redis adapter always writes the fresh User; and in both adapters the same
  call a second time leaves the store unchanged.
\<close>

theorem joinRoom_idempotent_upsert:
  "isMember r u (joinRoom r u m A)
   \<and> (\<not> isMember r u A \<longrightarrow>
        lookupUser r u (joinRoom r u m A)
          = Some \<lparr> user_id = u, user_roomId = r, cursor = None, typing = False, user_metadata = m \<rparr>)
   \<and> (isMember r u A \<longrightarrow> joinRoom r u m A = A)
   \<and> joinRoom r u m (joinRoom r u m A) = joinRoom r u m A
   \<and> hget (usersKey r) u (redis_joinRoom r u m R)
        = Some \<lparr> user_id = u, user_roomId = r, cursor = None, typing = False, user_metadata = m \<rparr>
   \<and> u \<in> sets (redis_joinRoom r u m R) (membersKey r)
   \<and> redis_joinRoom r u m (redis_joinRoom r u m R) = redis_joinRoom r u m R"
  using joinRoom_isMember [of r u m A] joinRoom_lookup_new [of r u A m] joinRoom_member [of r u A m]
    joinRoom_idem [of r u m A] redis_joinRoom_hget [of r u m R] redis_joinRoom_member [of u r m R]
    redis_joinRoom_idem [of r u m R]
  by (simp add: newUser_def)

text \<open>In \<open>typingStore\<close>, \<open>u2\<close> is new and \<open>u1\<close> is a member already.\<close>

theorem joinRoom_idempotent_upsert_witness:
  "\<not> isMember ''r1'' ''u2'' typingStore
   \<and> lookupUser ''r1'' ''u2'' (joinRoom ''r1'' ''u2'' None typingStore)
        = Some \<lparr> user_id = ''u2'', user_roomId = ''r1'', cursor = None, typing = False,
                 user_metadata = None \<rparr>
   \<and> isMember ''r1'' ''u1'' typingStore
   \<and> joinRoom ''r1'' ''u1'' None typingStore = typingStore"
proof -
  have n: "\<not> isMember ''r1'' ''u2'' typingStore" by code_simp
  have y: "isMember ''r1'' ''u1'' typingStore" by code_simp
  show ?thesis
    using joinRoom_idempotent_upsert [of "''r1''" "''u2''" None typingStore emptyRedis]
      joinRoom_idempotent_upsert [of "''r1''" "''u1''" None typingStore emptyRedis] n y
    by simp
qed

text \<open>
  C6 as stated fails: \<open>u1\<close> is a member of \<open>r1\<close> and typing; after it joins again
  with metadata, the room holds it still typing and without metadata.
\<close>

theorem joinRoom_existing_member_counterexample:
  "getUsers ''r1'' (joinRoom ''r1'' ''u1'' (Some [(''name'', ''Ann'')]) typingStore)
     = [\<lparr> user_id = ''u1'', user_roomId = ''r1'', cursor = None, typing = True,
          user_metadata = None \<rparr>]
   \<and> \<not> (\<exists>usr \<in> set (getUsers ''r1'' (joinRoom ''r1'' ''u1'' (Some [(''name'', ''Ann'')]) typingStore)).
          user_id usr = ''u1'' \<and> cursor usr = None \<and> typing usr = False
          \<and> user_metadata usr = Some [(''name'', ''Ann'')])"
  by code_simp


subsection \<open>C7: the reconnect delay\<close>

text \<open>
  C7: on a close that was not asked for by the caller, with reconnection enabled and
  attempts remaining, the timeout is set with the delay
  \<open>min(initialDelay * backoffFactor^attempts, maxDelay)\<close>, where \<open>initialDelay\<close>,
  \<open>backoffFactor\<close> and \<open>maxDelay\<close> are the values the caller configured (1000, 2 and
  30000 for those left out), computed from the counter before it is incremented; with
  \<open>initialDelay = 1000\<close>, \<open>backoffFactor = 2\<close>, \<open>maxDelay = 30000\<close> the delays of six
  closes in a row are 1000, 2000, 4000, 8000, 16000, 30000.  The product and the power
  are those of doubles, on any platform; where the platform computes them without
  rounding, as on the integers of the example, the delay is the exact value of the
  formula.  The same holds, with the default values, when the caller passed no
  \<open>reconnect\<close> option or \<open>true\<close>.
\<close>

theorem reconnect_backoff_delay:
  assumes live: "shouldReconnect s"
      and conf: "cfg_reconnect cfg = Some (ReconnectObject rc)"
      and on: "enabled rc \<noteq> Some False"
      and left: "real (reconnectAttempts s) < (case maxRetries rc of None \<Rightarrow> 10 | Some r \<Rightarrow> r)"
  shows "reconnectTimer (onclose fp cfg s)
           = Some (min (fmul fp (case initialDelay rc of None \<Rightarrow> 1000 | Some i \<Rightarrow> i)
                          (fpow fp (case backoffFactor rc of None \<Rightarrow> 2 | Some b \<Rightarrow> b)
                             (real (reconnectAttempts s))))
                       (case maxDelay rc of None \<Rightarrow> 30000 | Some m \<Rightarrow> m))
       \<and> reconnectAttempts (onclose fp cfg s) = reconnectAttempts s + 1
       \<and> (exactAt fp (case initialDelay rc of None \<Rightarrow> 1000 | Some i \<Rightarrow> i)
             (case backoffFactor rc of None \<Rightarrow> 2 | Some b \<Rightarrow> b) (reconnectAttempts s)
           \<longrightarrow> reconnectTimer (onclose fp cfg s)
                 = Some (min ((case initialDelay rc of None \<Rightarrow> 1000 | Some i \<Rightarrow> i)
                                * (case backoffFactor rc of None \<Rightarrow> 2 | Some b \<Rightarrow> b)
                                    ^ reconnectAttempts s)
                             (case maxDelay rc of None \<Rightarrow> 30000 | Some m \<Rightarrow> m)))
       \<and> (list_all (exactAt fp 1000 2) [0..<6]
           \<longrightarrow> reconnectDelays fp backoffConfig 6 (session backoffConfig)
                 = [Some 1000, Some 2000, Some 4000, Some 8000, Some 16000, Some 30000])
       \<and> (\<forall>cfg' s'. (cfg_reconnect cfg' = None \<or> cfg_reconnect cfg' = Some (ReconnectFlag True))
                     \<and> shouldReconnect s' \<and> reconnectAttempts s' < 10
           \<longrightarrow> reconnectTimer (onclose fp cfg' s')
                 = Some (min (fmul fp 1000 (fpow fp 2 (real (reconnectAttempts s')))) 30000)
               \<and> reconnectAttempts (onclose fp cfg' s') = reconnectAttempts s' + 1)"
proof -
  note c = reconnect_object [OF conf]
  have on': "enabled (reconnect cfg) = Some True" using c(1) on by simp
  have left': "real (reconnectAttempts s) < nullish (maxRetries (reconnect cfg)) 10"
    using c(2) left by simp
  note step = onclose_schedules [OF live on' left', of fp]
  have delay: "reconnectTimer (onclose fp cfg s)
           = Some (min (fmul fp (case initialDelay rc of None \<Rightarrow> 1000 | Some i \<Rightarrow> i)
                          (fpow fp (case backoffFactor rc of None \<Rightarrow> 2 | Some b \<Rightarrow> b)
                             (real (reconnectAttempts s))))
                       (case maxDelay rc of None \<Rightarrow> 30000 | Some m \<Rightarrow> m))"
    unfolding step c by simp
  have count: "reconnectAttempts (onclose fp cfg s) = reconnectAttempts s + 1"
    unfolding step by simp
  have exact: "exactAt fp (case initialDelay rc of None \<Rightarrow> 1000 | Some i \<Rightarrow> i)
             (case backoffFactor rc of None \<Rightarrow> 2 | Some b \<Rightarrow> b) (reconnectAttempts s)
           \<longrightarrow> reconnectTimer (onclose fp cfg s)
                 = Some (min ((case initialDelay rc of None \<Rightarrow> 1000 | Some i \<Rightarrow> i)
                                * (case backoffFactor rc of None \<Rightarrow> 2 | Some b \<Rightarrow> b)
                                    ^ reconnectAttempts s)
                             (case maxDelay rc of None \<Rightarrow> 30000 | Some m \<Rightarrow> m))"
    unfolding delay by (simp add: exactAt_def)
  have six: "list_all (exactAt fp 1000 2) [0..<6]
           \<longrightarrow> reconnectDelays fp backoffConfig 6 (session backoffConfig)
                 = [Some 1000, Some 2000, Some 4000, Some 8000, Some 16000, Some 30000]"
    using backoff_delays by blast
  have dflt: "reconnectTimer (onclose fp cfg' s')
                 = Some (min (fmul fp 1000 (fpow fp 2 (real (reconnectAttempts s')))) 30000)
               \<and> reconnectAttempts (onclose fp cfg' s') = reconnectAttempts s' + 1"
    if d: "cfg_reconnect cfg' = None \<or> cfg_reconnect cfg' = Some (ReconnectFlag True)"
    and l: "shouldReconnect s'" and n: "reconnectAttempts s' < 10" for cfg' s'
  proof -
    note r = reconnect_default [OF d]
    have "real (reconnectAttempts s') < nullish (maxRetries (reconnect cfg')) 10"
      using r(2) n by simp
    from onclose_schedules [OF l r(1) this, of fp] show ?thesis
      unfolding r by simp
  qed
  show ?thesis using delay count exact six dflt by blast
qed

text \<open>
  Three closes on the rounding platform: the third failed attempt of \<open>customBackoff\<close>
  is given \<open>min(500 * 3^2, 10000) = 4500\<close> ms; that of \<open>fractionalBackoff\<close> is given
  \<open>1000 * 1.1^2\<close> as doubles compute it, which is \<open>1210.0000000000002\<close>; the first
  close of a client without a \<open>reconnect\<close> option is given 1000 ms.
\<close>

theorem reconnect_backoff_delay_witness:
  "shouldReconnect (closedTwice customBackoff)
   \<and> reconnectAttempts (closedTwice customBackoff) = 2
   \<and> reconnectTimer (onclose ieee customBackoff (closedTwice customBackoff)) = Some 4500
   \<and> reconnectAttempts (onclose ieee customBackoff (closedTwice customBackoff)) = 3
   \<and> shouldReconnect (closedTwice fractionalBackoff)
   \<and> reconnectAttempts (closedTwice fractionalBackoff) = 2
   \<and> reconnectTimer (onclose ieee fractionalBackoff (closedTwice fractionalBackoff))
        = Some (1210 + 1 / 2 ^ 42)
   \<and> list_all (exactAt ieee 1000 2) [0..<6]
   \<and> reconnectDelays ieee backoffConfig 6 (session backoffConfig)
        = [Some 1000, Some 2000, Some 4000, Some 8000, Some 16000, Some 30000]
   \<and> cfg_reconnect defaultConfig = None
   \<and> reconnectTimer (onclose ieee defaultConfig (session defaultConfig)) = Some 1000"
proof -
  let ?custom = "\<lparr> enabled = Some True, maxRetries = Some 4, initialDelay = Some 500,
                    maxDelay = Some 10000, backoffFactor = Some 3 \<rparr>"
  let ?frac = "\<lparr> enabled = None, maxRetries = None, initialDelay = Some 1000,
                  maxDelay = Some 30000, backoffFactor = Some (4953959590107546 / 2 ^ 52) \<rparr>"
  have c1: "shouldReconnect (closedTwice customBackoff)" by code_simp
  have c2: "cfg_reconnect customBackoff = Some (ReconnectObject ?custom)"
    by (simp add: customBackoff_def)
  have c3: "enabled ?custom \<noteq> Some False" by simp
  have c4: "reconnectAttempts (closedTwice customBackoff) = 2" by code_simp
  have c5: "real (reconnectAttempts (closedTwice customBackoff))
              < (case maxRetries ?custom of None \<Rightarrow> 10 | Some r \<Rightarrow> r)"
    unfolding c4 by simp
  have "exactAt ieee 500 3 2" using ieee_exact_custom by (simp add: list_all_iff)
  then have c6: "fmul ieee 500 (fpow ieee 3 (real 2)) = 4500" by (simp add: exactAt_def)
  have f1: "shouldReconnect (closedTwice fractionalBackoff)" by code_simp
  have f2: "cfg_reconnect fractionalBackoff = Some (ReconnectObject ?frac)"
    by (simp add: fractionalBackoff_def)
  have f3: "enabled ?frac \<noteq> Some False" by simp
  have f4: "reconnectAttempts (closedTwice fractionalBackoff) = 2" by code_simp
  have f5: "real (reconnectAttempts (closedTwice fractionalBackoff))
              < (case maxRetries ?frac of None \<Rightarrow> 10 | Some r \<Rightarrow> r)"
    unfolding f4 by simp
  have f6: "fmul ieee 1000 (fpow ieee (4953959590107546 / 2 ^ 52) (real 2)) = 1210 + 1 / 2 ^ 42"
    unfolding conjunct1 [OF ieee_fractional_powers]
    by (rule conjunct1 [OF ieee_fractional_products])
  have e: "list_all (exactAt ieee 1000 2) [0..<6]" by (rule ieee_exact_standard)
  have d1: "cfg_reconnect defaultConfig = None" by (simp add: defaultConfig_def)
  have d2: "shouldReconnect (session defaultConfig)" by code_simp
  have d3: "reconnectAttempts (session defaultConfig) = 0" by code_simp
  have "exactAt ieee 1000 2 0" using ieee_exact_standard by (simp add: list_all_iff)
  then have d4: "fmul ieee 1000 (fpow ieee 2 (real 0)) = 1000" by (simp add: exactAt_def)
  note custom = reconnect_backoff_delay [OF c1 c2 c3 c5, of ieee]
  note frac = reconnect_backoff_delay [OF f1 f2 f3 f5, of ieee]
  have "reconnectTimer (onclose ieee customBackoff (closedTwice customBackoff))
          = Some (min (fmul ieee 500 (fpow ieee 3 (real 2))) 10000)"
    using conjunct1 [OF custom] unfolding c4
    by (simp only: ReconnectConfig.select_convs option.simps)
  then have r1: "reconnectTimer (onclose ieee customBackoff (closedTwice customBackoff)) = Some 4500"
    unfolding c6 by simp
  have r2: "reconnectAttempts (onclose ieee customBackoff (closedTwice customBackoff)) = 3"
    using conjunct1 [OF conjunct2 [OF custom]] unfolding c4 by simp
  have "reconnectTimer (onclose ieee fractionalBackoff (closedTwice fractionalBackoff))
          = Some (min (fmul ieee 1000 (fpow ieee (4953959590107546 / 2 ^ 52) (real 2))) 30000)"
    using conjunct1 [OF frac] unfolding f4
    by (simp only: ReconnectConfig.select_convs option.simps)
  then have r3: "reconnectTimer (onclose ieee fractionalBackoff (closedTwice fractionalBackoff))
              = Some (1210 + 1 / 2 ^ 42)"
    unfolding f6 by simp
  have r4: "reconnectDelays ieee backoffConfig 6 (session backoffConfig)
              = [Some 1000, Some 2000, Some 4000, Some 8000, Some 16000, Some 30000]"
    using conjunct1 [OF conjunct2 [OF conjunct2 [OF conjunct2 [OF custom]]]] e by (rule mp)
  have d5: "(cfg_reconnect defaultConfig = None \<or> cfg_reconnect defaultConfig = Some (ReconnectFlag True))
              \<and> shouldReconnect (session defaultConfig) \<and> reconnectAttempts (session defaultConfig) < 10"
    using d1 d2 d3 by simp
  have "reconnectTimer (onclose ieee defaultConfig (session defaultConfig))
          = Some (min (fmul ieee 1000 (fpow ieee 2 (real (reconnectAttempts (session defaultConfig))))) 30000)"
    using conjunct2 [OF conjunct2 [OF conjunct2 [OF conjunct2 [OF custom]]]] d5 by blast
  then have r5: "reconnectTimer (onclose ieee defaultConfig (session defaultConfig)) = Some 1000"
    unfolding d3 d4 by simp
  show ?thesis using c1 c4 r1 r2 f1 f4 r3 e r4 d1 r5 by simp
qed


subsection \<open>C8: throttling the cursor\<close>

text \<open>
  C8 says that with \<open>throttleCursor = 50\<close> two calls of \<open>cursor\<close> 10 ms apart produce
  exactly one message, carrying the second position, no earlier than 50 ms after the
  first call.  The code sends at once when at least \<open>throttleCursor\<close> ms have passed
  since \<open>lastCursorUpdate\<close>.  What holds: in a connected session with nothing pending
  and \<open>lastCursorUpdate\<close> at least 50 ms old, a call at time \<open>T\<close> and a second one at
  \<open>T + 10\<close> produce exactly two cursor messages, the first position at \<open>T\<close> and the
  second at \<open>T + 50\<close>; and in every sequence of calls and timer firings each event sends
  at most one message, a cursor message with the position of the latest call.
\<close>

theorem cursor_throttle_leading_edge:
  assumes "ws s = Some OPEN" and "pendingCursorPosition s = None" and "throttleCursor cfg = 50"
      and "lastCursorUpdate s + 50 \<le> T"
  shows "sentMessages (advanceTo (T + 50) (cursorCalls cfg [(T, p1), (T + 10, p2)] s))
           = sentMessages s @ [(T, cursorMessage p1 (currentRoomId s)),
                               (T + 50, cursorMessage p2 (currentRoomId s))]
       \<and> (\<forall>evs ev. \<exists>new.
             sentMessages (cursorRun cfg (evs @ [ev]) s) = sentMessages (cursorRun cfg evs s) @ new
             \<and> length new \<le> 1
             \<and> (\<forall>(t, m) \<in> set new. mtype m = MCursor \<and> m_position m \<noteq> None
                   \<and> m_position m = lastPosition (evs @ [ev])))"
  using two_calls [OF assms] freshest_step [OF assms(2)] by blast

theorem cursor_throttle_leading_edge_witness:
  "ws (session defaultConfig) = Some OPEN
   \<and> pendingCursorPosition (session defaultConfig) = None
   \<and> throttleCursor defaultConfig = 50
   \<and> lastCursorUpdate (session defaultConfig) + 50 \<le> 1000
   \<and> sentMessages (advanceTo 1050 (cursorCalls defaultConfig [(1000, (1, 1)), (1010, (2, 2))]
         (session defaultConfig)))
        = sentMessages (session defaultConfig)
            @ [(1000, cursorMessage (1, 1) (currentRoomId (session defaultConfig))),
               (1050, cursorMessage (2, 2) (currentRoomId (session defaultConfig)))]"
proof -
  have h1: "ws (session defaultConfig) = Some OPEN" by code_simp
  have h2: "pendingCursorPosition (session defaultConfig) = None" by code_simp
  have h3: "throttleCursor defaultConfig = 50" by code_simp
  have h4: "lastCursorUpdate (session defaultConfig) + 50 \<le> 1000" by code_simp
  show ?thesis
    using cursor_throttle_leading_edge [OF h1 h2 h3 h4, of "(1, 1)" "(2, 2)"] h1 h2 h3 h4
    by simp
qed

text \<open>
  C8 as stated fails in a fresh session: the calls at 1000 and 1010 produce two cursor
  messages, at 1000 and at 1050.
\<close>

theorem cursor_throttle_counterexample:
  "throttleCursor defaultConfig = 50
   \<and> cursorSent (advanceTo 2000 (cursorCalls defaultConfig [(1000, (1, 1)), (1010, (2, 2))]
        (session defaultConfig)))
       = [(1000, Some (1, 1)), (1050, Some (2, 2))]
   \<and> length (cursorSent (advanceTo 2000 (cursorCalls defaultConfig [(1000, (1, 1)), (1010, (2, 2))]
        (session defaultConfig)))) \<noteq> 1"
  by code_simp

text \<open>
  The timer's flush does not set \<open>lastCursorUpdate\<close>, so a call right after it is sent
  at once: here two messages leave 1 ms apart.
\<close>

lemma throttle_window_two_sends:
  "cursorSent (cursorCalls defaultConfig [(1000, (1, 1)), (1010, (2, 2)), (1051, (3, 3))]
      (session defaultConfig))
     = [(1000, Some (1, 1)), (1050, Some (2, 2)), (1051, Some (3, 3))]"
  by code_simp


subsection \<open>C9: ping\<close>

text \<open>
  C9 says that every connection, also one that has not joined, gets a \<open>pong\<close> for a
  \<open>ping\<close>.  The handler tests \<open>!connection\<close> before it looks for \<open>ping\<close>.  What
  holds: a connection that has joined is sent \<open>pong\<close>, and one that has not is sent the
  error \<open>Not authenticated. Send join message first.\<close>; in both cases the reply goes
  to the sender alone and nothing else in the server state changes.
\<close>

theorem ping_when_bound:
  assumes "mtype msg = MPing"
  shows "(map_of (connections S) sock \<noteq> None \<longrightarrow>
            onMessage auth uuid sock (Inr msg) S = S\<lparr>sent := sent S @ [(sock, message SPong)]\<rparr>)
       \<and> (map_of (connections S) sock = None \<longrightarrow>
            onMessage auth uuid sock (Inr msg) S
              = S\<lparr>sent := sent S @ [(sock, errorMessage ''Not authenticated. Send join message first.'')]\<rparr>)"
  using assms by (auto simp: onMessage_def handleMessage_def send_def)

theorem ping_when_bound_witness:
  "mtype (clientMessage MPing) = MPing \<and> map_of (connections twoInRoom) 1 \<noteq> None
   \<and> onMessage None [] 1 (Inr (clientMessage MPing)) twoInRoom
        = twoInRoom\<lparr>sent := sent twoInRoom @ [(1, message SPong)]\<rparr>
   \<and> map_of (connections initialServer) 1 = None
   \<and> onMessage None [] 1 (Inr (clientMessage MPing)) initialServer
        = initialServer\<lparr>sent := sent initialServer
             @ [(1, errorMessage ''Not authenticated. Send join message first.'')]\<rparr>"
proof -
  have h: "mtype (clientMessage MPing) = MPing" by (simp add: clientMessage_def)
  have b: "map_of (connections twoInRoom) 1 \<noteq> None" by code_simp
  have u: "map_of (connections initialServer) 1 = None" by code_simp
  show ?thesis
    using h b u ping_when_bound [OF h, of twoInRoom 1 None "[]"]
      ping_when_bound [OF h, of initialServer 1 None "[]"]
    by simp
qed

text \<open>C9 as stated fails: socket 3 has not joined, and its ping is answered with the error.\<close>

theorem ping_before_join_counterexample:
  "received 3 (run None [Connect 3, Receive 3 [] (clientMessage MPing)] initialServer)
     = [errorMessage ''Not authenticated. Send join message first.'']
   \<and> message SPong \<notin> set (received 3 (run None [Connect 3, Receive 3 [] (clientMessage MPing)] initialServer))"
  by code_simp


subsection \<open>C10: a second join for the same room\<close>

text \<open>
  C10 says that, without \<open>auth\<close>, a second join of a bound connection whose \<open>roomId\<close>
  is its current room or is omitted binds the connection to a fresh identity and adds
  that identity to the room, while the entry of the previous identity stays.  The
  handler takes \<open>data.roomId || 'default'\<close> as the room.  What holds: the connection is
  bound to the fresh identity in the room named by the message, which is \<open>default\<close> when
  \<open>roomId\<close> is omitted or empty; the fresh identity is a member of that room; and every
  entry of every room, the previous identity's among them, is still there.
\<close>

theorem rejoin_same_room:
  assumes noauth: "auth = None"
      and bound: "map_of (connections S) sock = Some conn"
      and join: "mtype msg = MJoin"
      and same: "\<not> truthy (m_roomId msg) \<or> m_roomId msg = Some (conn_roomId conn)"
  shows "let S' = onMessage auth uuid sock (Inr msg) S;
             target = orElse (m_roomId msg) ''default''
         in map_of (connections S') sock
              = Some \<lparr> conn_ws = sock, conn_userId = uuid, conn_roomId = target,
                       conn_metadata = m_metadata msg \<rparr>
          \<and> isMember target uuid (adapter S')
          \<and> (\<forall>r u usr. lookupUser r u (adapter S) = Some usr
                \<longrightarrow> lookupUser r u (adapter S') = Some usr)"
proof -
  let ?target = "orElse (m_roomId msg) ''default''"
  let ?conn = "\<lparr> conn_ws = sock, conn_userId = uuid, conn_roomId = ?target,
                  conn_metadata = m_metadata msg \<rparr>"
  let ?S1 = "S\<lparr>connections := AList.update sock ?conn (connections S)\<rparr>"
  have hj: "handleMessage auth uuid sock msg S = enterRoom ?target uuid (m_metadata msg) ?S1"
    using noauth bound join same by (auto simp: handleMessage_def handleJoin_def Let_def)
  obtain S' where S': "enterRoom ?target uuid (m_metadata msg) ?S1 = Returned S'"
    and rooms': "rooms (adapter S') = rooms (joinRoom ?target uuid (m_metadata msg) (adapter ?S1))"
    and conns': "connections S' = connections ?S1"
    using enterRoom_frame by blast
  have res: "onMessage auth uuid sock (Inr msg) S = S'"
    by (simp add: onMessage_def hj S')
  have look: "lookupUser r u (adapter S') = lookupUser r u (joinRoom ?target uuid (m_metadata msg) (adapter S))"
    for r u using rooms' by (simp add: lookupUser_def)
  have c1: "map_of (connections S') sock = Some ?conn"
    by (simp add: conns' update_conv')
  have c2: "isMember ?target uuid (adapter S')"
    using joinRoom_isMember [of ?target uuid "m_metadata msg" "adapter S"]
    by (simp add: isMember_def look)
  have c3: "\<forall>r u usr. lookupUser r u (adapter S) = Some usr \<longrightarrow> lookupUser r u (adapter S') = Some usr"
    by (simp add: look joinRoom_keeps)
  show ?thesis unfolding Let_def res using c1 c2 c3 by blast
qed

theorem rejoin_same_room_witness:
  "map_of (connections twoInRoom) 1
     = Some \<lparr> conn_ws = 1, conn_userId = ''u1'', conn_roomId = ''r1'', conn_metadata = None \<rparr>
   \<and> mtype (joinMessage (Some ''r1'')) = MJoin
   \<and> m_roomId (joinMessage (Some ''r1'')) = Some ''r1''
   \<and> map_of (connections (onMessage None ''u9'' 1 (Inr (joinMessage (Some ''r1''))) twoInRoom)) 1
        = Some \<lparr> conn_ws = 1, conn_userId = ''u9'', conn_roomId = ''r1'', conn_metadata = None \<rparr>
   \<and> isMember ''r1'' ''u9'' (adapter (onMessage None ''u9'' 1 (Inr (joinMessage (Some ''r1''))) twoInRoom))
   \<and> isMember ''r1'' ''u1'' (adapter (onMessage None ''u9'' 1 (Inr (joinMessage (Some ''r1''))) twoInRoom))"
proof -
  let ?conn = "\<lparr> conn_ws = 1, conn_userId = ''u1'', conn_roomId = ''r1'', conn_metadata = None \<rparr>"
  have b: "map_of (connections twoInRoom) 1 = Some ?conn" by code_simp
  have j: "mtype (joinMessage (Some ''r1'')) = MJoin" by code_simp
  have r: "m_roomId (joinMessage (Some ''r1'')) = Some ''r1''" by code_simp
  have s: "\<not> truthy (m_roomId (joinMessage (Some ''r1'')))
           \<or> m_roomId (joinMessage (Some ''r1'')) = Some (conn_roomId ?conn)"
    using r by simp
  have old: "lookupUser ''r1'' ''u1'' (adapter twoInRoom) = Some (newUser ''r1'' ''u1'' None)"
    by code_simp
  have m: "m_metadata (joinMessage (Some ''r1'')) = None" by code_simp
  show ?thesis
    using rejoin_same_room [OF refl b j s, of "''u9''"] b j r old m
    by (simp add: Let_def orElse_def isMember_def)
qed

text \<open>
  C10 as stated fails: socket 1 is bound to \<open>r1\<close>; after a join without \<open>roomId\<close> its
  fresh identity \<open>u9\<close> is not a member of \<open>r1\<close>, and the socket is bound to
  \<open>default\<close>.
\<close>

theorem rejoin_without_roomId_counterexample:
  "map_of (connections twoInRoom) 1
     = Some \<lparr> conn_ws = 1, conn_userId = ''u1'', conn_roomId = ''r1'', conn_metadata = None \<rparr>
   \<and> \<not> isMember ''r1'' ''u9'' (adapter (onMessage None ''u9'' 1 (Inr (joinMessage None)) twoInRoom))
   \<and> map_of (connections (onMessage None ''u9'' 1 (Inr (joinMessage None)) twoInRoom)) 1
        = Some \<lparr> conn_ws = 1, conn_userId = ''u9'', conn_roomId = ''default'', conn_metadata = None \<rparr>"
  by code_simp

end
